theory Spec2Isabelle
  imports Main "HOL-Library.AList" "HOL-Library.Char_ord" "HOL-Library.List_Lexorder"
    "HOL-Library.Product_Lexorder"
begin

section \<open>The configuration engine of scripts/configure.py\<close>

text \<open>
  The script resolves one configuration document from a bundled document, a persisted
  document and the process environment, writes it, and renders two Caddy snippets.
  The model follows the script function by function and, inside \<open>main\<close>, section by
  numbered section. Mutation of the document is explicit state passing, every exception
  the script can raise is a value of type \<open>error\<close>, and printing to standard output is
  left out.
\<close>

subsection \<open>Documents, errors and the Python built-ins\<close>

text \<open>
  A document is what \<open>json.load\<close> returns. A Python \<open>dict\<close> keeps insertion order, which
  \<open>json.dumps\<close> follows, so a mapping is an association list: \<open>map_of\<close> reads a key,
  \<open>AList.update\<close> assigns it (in place when the key is there, at the end otherwise) and
  \<open>AList.delete\<close> removes it. Floats are kept abstract (type \<open>'f\<close>).
\<close>

datatype 'f json =
    JNull
  | JBool bool
  | JInt int
  | JFloat 'f
  | JStr string
  | JList "'f json list"
  | JDict "(string \<times> 'f json) list"

text \<open>
  The exceptions that escape the script, and \<open>sys.exit(1)\<close> with the lines it printed to
  standard error before.
\<close>

datatype error =
    AttributeError
  | TypeError
  | ValueError
  | KeyError
  | SystemExit int "string list"

text \<open>
  Built-ins of Python that the script calls and that are not part of it: \<open>int(s)\<close>,
  \<open>float(s)\<close> and \<open>json.loads(s)\<close> (\<open>None\<close> when they raise \<open>ValueError\<close> or
  \<open>JSONDecodeError\<close>), the truth value of a float, and \<open>str(x)\<close> as an f-string
  formats a value. Every function of the model takes them as a parameter.
\<close>

record 'f runtime =
  py_int :: "string \<Rightarrow> int option"
  py_float :: "string \<Rightarrow> 'f option"
  float_bool :: "'f \<Rightarrow> bool"
  json_loads :: "string \<Rightarrow> 'f json option"
  py_str :: "'f json \<Rightarrow> string"

text \<open>Sequencing of steps that may raise: the first exception ends the run.\<close>

fun and_then :: "'e + 'a \<Rightarrow> ('a \<Rightarrow> 'e + 'b) \<Rightarrow> 'e + 'b" where
  "and_then (Inl e) f = Inl e"
| "and_then (Inr x) f = f x"

subsection \<open>String methods\<close>

text \<open>
  Strings are byte strings (UTF-8). \<open>lower\<close> and \<open>strip\<close> are the ASCII ones: the script
  compares lowered strings with ASCII literals only, and UTF-8 keeps the order of code
  points, so sorting by bytes is sorting by code points.
\<close>

definition lower_char :: "char \<Rightarrow> char" where
  "lower_char c =
     (if CHR ''A'' \<le> c \<and> c \<le> CHR ''Z'' then char_of (of_char c + (32::nat)) else c)"

definition lower :: "string \<Rightarrow> string" where
  "lower s = map lower_char s"

definition is_space :: "char \<Rightarrow> bool" where
  "is_space c =
     (let n = (of_char c :: nat) in (9 \<le> n \<and> n \<le> 13) \<or> (28 \<le> n \<and> n \<le> 32))"

definition rstrip_chars :: "string \<Rightarrow> string \<Rightarrow> string" where
  "rstrip_chars chars s = rev (dropWhile (\<lambda>c. c \<in> set chars) (rev s))"

definition strip :: "string \<Rightarrow> string" where
  "strip s = rev (dropWhile is_space (rev (dropWhile is_space s)))"

definition startswith :: "string \<Rightarrow> string \<Rightarrow> bool" where
  "startswith s p = (take (length p) s = p)"

definition endswith :: "string \<Rightarrow> string \<Rightarrow> bool" where
  "endswith s p = (length p \<le> length s \<and> drop (length s - length p) s = p)"

text \<open>\<open>s.split(sep)\<close> for a separator of one character: never the empty list.\<close>

fun split_on :: "char \<Rightarrow> string \<Rightarrow> string list" where
  "split_on sep [] = [[]]"
| "split_on sep (c # cs) =
     (if c = sep then [] # split_on sep cs
      else (case split_on sep cs of
              [] \<Rightarrow> [[c]]
            | w # ws \<Rightarrow> (c # w) # ws))"

text \<open>\<open>s.replace("__", ".")\<close>: occurrences are replaced from the left, without overlap.\<close>

fun replace_dunder :: "string \<Rightarrow> string" where
  "replace_dunder (a # b # cs) =
     (if a = CHR ''_'' \<and> b = CHR ''_'' then CHR ''.'' # replace_dunder cs
      else a # replace_dunder (b # cs))"
| "replace_dunder cs = cs"

subsection \<open>Dictionary operations on documents\<close>

text \<open>
  Truth value of a document node, as \<open>if x:\<close> and \<open>not x\<close> read it. \<open>d.get(k)\<close> returns
  \<open>None\<close> for a missing key, which is \<open>JNull\<close> here.
\<close>

fun truthy :: "'f runtime \<Rightarrow> 'f json \<Rightarrow> bool" where
  "truthy rt JNull = False"
| "truthy rt (JBool b) = b"
| "truthy rt (JInt n) = (n \<noteq> 0)"
| "truthy rt (JFloat x) = float_bool rt x"
| "truthy rt (JStr s) = (s \<noteq> [])"
| "truthy rt (JList xs) = (xs \<noteq> [])"
| "truthy rt (JDict d) = (d \<noteq> [])"

fun is_dict :: "'f json \<Rightarrow> bool" where
  "is_dict (JDict d) = True"
| "is_dict _ = False"

text \<open>\<open>obj[k]\<close>, \<open>obj.get(k)\<close> and \<open>obj[k] = v\<close> for a string key \<open>k\<close>.\<close>

fun getitem :: "'f json \<Rightarrow> string \<Rightarrow> error + 'f json" where
  "getitem (JDict d) k = (case map_of d k of None \<Rightarrow> Inl KeyError | Some v \<Rightarrow> Inr v)"
| "getitem _ k = Inl TypeError"

fun dict_get :: "'f json \<Rightarrow> string \<Rightarrow> error + 'f json" where
  "dict_get (JDict d) k = (case map_of d k of None \<Rightarrow> Inr JNull | Some v \<Rightarrow> Inr v)"
| "dict_get _ k = Inl AttributeError"

fun setitem :: "'f json \<Rightarrow> string \<Rightarrow> 'f json \<Rightarrow> error + 'f json" where
  "setitem (JDict d) k v = Inr (JDict (AList.update k v d))"
| "setitem _ k v = Inl TypeError"

text \<open>\<open>obj[k1]...[kn]\<close> and \<open>obj[k1]...[kn] = v\<close>; the inner dictionary is changed in place.\<close>

fun getitems :: "'f json \<Rightarrow> string list \<Rightarrow> error + 'f json" where
  "getitems obj [] = Inr obj"
| "getitems obj (k # ks) = and_then (getitem obj k) (\<lambda>child. getitems child ks)"

fun setitems :: "'f json \<Rightarrow> string list \<Rightarrow> 'f json \<Rightarrow> error + 'f json" where
  "setitems obj [] v = Inr obj"
| "setitems obj [k] v = setitem obj k v"
| "setitems obj (k # ks) v =
     and_then (getitem obj k) (\<lambda>child.
     and_then (setitems child ks v) (\<lambda>child'.
     setitem obj k child'))"

text \<open>
  \<open>del d[name]\<close> (and \<open>d.pop(name, None)\<close>) where \<open>d\<close> is the dictionary reached from
  \<open>obj\<close> along \<open>ks\<close>; the script deletes only after it has checked that \<open>d\<close> is a
  dictionary, so there is nothing to raise.
\<close>

fun del_path :: "'f json \<Rightarrow> string list \<Rightarrow> string \<Rightarrow> 'f json" where
  "del_path (JDict d) [] name = JDict (AList.delete name d)"
| "del_path (JDict d) (k # ks) name =
     (case map_of d k of
        None \<Rightarrow> JDict d
      | Some child \<Rightarrow> JDict (AList.update k (del_path child ks name) d))"
| "del_path obj ks name = obj"

subsection \<open>The generic engine\<close>

text \<open>
  \<open>deep_merge(target, source)\<close>. \<open>source.items()\<close> raises on anything but a dictionary;
  in the loop, \<open>target.get(key)\<close> is evaluated only when \<open>val\<close> is a dictionary, and
  \<open>target[key] = val\<close> otherwise.
\<close>

fun deep_merge :: "'f json \<Rightarrow> 'f json \<Rightarrow> error + 'f json" where
  "deep_merge target (JDict []) = Inr target"
| "deep_merge target (JDict ((key, val) # rest)) =
     (case target of
        JDict t \<Rightarrow>
          (case val of
             JDict s \<Rightarrow>
               (case map_of t key of
                  Some (JDict t') \<Rightarrow>
                    and_then (deep_merge (JDict t') val) (\<lambda>merged.
                    deep_merge (JDict (AList.update key merged t)) (JDict rest))
                | _ \<Rightarrow> deep_merge (JDict (AList.update key val t)) (JDict rest))
           | _ \<Rightarrow> deep_merge (JDict (AList.update key val t)) (JDict rest))
      | _ \<Rightarrow> (if is_dict val then Inl AttributeError else Inl TypeError))"
| "deep_merge target _ = Inl AttributeError"

text \<open>
  \<open>set_nested(obj, dotpath, value)\<close>. \<open>obj.setdefault(k, {})\<close> returns the node that is
  already at \<open>k\<close>, whatever it is, and raises \<open>AttributeError\<close> when \<open>obj\<close> is not a
  dictionary; the final \<open>obj[keys[-1]] = value\<close> raises \<open>TypeError\<close> then.
\<close>

fun set_nested_keys :: "'f json \<Rightarrow> string list \<Rightarrow> 'f json \<Rightarrow> error + 'f json" where
  "set_nested_keys obj [] v = Inr obj"
| "set_nested_keys obj [k] v = setitem obj k v"
| "set_nested_keys obj (k # ks) v =
     (case obj of
        JDict d \<Rightarrow>
          (case map_of d k of
             None \<Rightarrow>
               and_then (set_nested_keys (JDict []) ks v) (\<lambda>child'.
               Inr (JDict (AList.update k child' d)))
           | Some child \<Rightarrow>
               and_then (set_nested_keys child ks v) (\<lambda>child'.
               Inr (JDict (AList.update k child' d))))
      | _ \<Rightarrow> Inl AttributeError)"

definition set_nested :: "'f json \<Rightarrow> string \<Rightarrow> 'f json \<Rightarrow> error + 'f json" where
  "set_nested obj dotpath v = set_nested_keys obj (split_on CHR ''.'' dotpath) v"

text \<open>
  \<open>get_nested(obj, dotpath, default)\<close>. \<open>obj is default\<close> is object identity: it holds
  when the key is missing (\<open>get\<close> returned \<open>default\<close> itself) and for the singletons
  \<open>None\<close>, \<open>True\<close> and \<open>False\<close>; two containers read from different places are
  different objects.
\<close>

definition py_is :: "'f json \<Rightarrow> 'f json \<Rightarrow> bool" where
  "py_is a b = (a = b \<and> (case a of JNull \<Rightarrow> True | JBool x \<Rightarrow> True | _ \<Rightarrow> False))"

fun get_nested_keys :: "'f json \<Rightarrow> string list \<Rightarrow> 'f json \<Rightarrow> 'f json" where
  "get_nested_keys obj [] dflt = obj"
| "get_nested_keys obj (k # ks) dflt =
     (case obj of
        JDict d \<Rightarrow>
          (case map_of d k of
             None \<Rightarrow> dflt
           | Some v \<Rightarrow> if py_is v dflt then dflt else get_nested_keys v ks dflt)
      | _ \<Rightarrow> dflt)"

definition get_nested :: "'f json \<Rightarrow> string \<Rightarrow> 'f json \<Rightarrow> 'f json" where
  "get_nested obj dotpath dflt = get_nested_keys obj (split_on CHR ''.'' dotpath) dflt"

text \<open>
  \<open>parse_value(raw, type_hint)\<close>: \<open>int(raw)\<close> raises \<open>ValueError\<close>; an unknown hint
  passes the string through.
\<close>

definition csv_items :: "string \<Rightarrow> string list" where
  "csv_items raw = filter (\<lambda>s. s \<noteq> []) (map strip (split_on CHR '','' raw))"

definition parse_value :: "'f runtime \<Rightarrow> string \<Rightarrow> string \<Rightarrow> error + 'f json" where
  "parse_value rt raw type_hint =
     (if type_hint = ''str'' then Inr (JStr raw)
      else if type_hint = ''int'' then
        (case py_int rt raw of None \<Rightarrow> Inl ValueError | Some n \<Rightarrow> Inr (JInt n))
      else if type_hint = ''bool_true'' then Inr (JBool (lower raw \<noteq> ''false''))
      else if type_hint = ''bool_false'' then Inr (JBool (lower raw = ''true''))
      else if type_hint = ''csv'' then Inr (JList (map JStr (csv_items raw)))
      else if type_hint = ''csv_smart'' then
        Inr (JList (map (\<lambda>s. case py_int rt s of Some n \<Rightarrow> JInt n | None \<Rightarrow> JStr s)
                        (csv_items raw)))
      else Inr (JStr raw))"

text \<open>
  The environment is a mapping from names to values; \<open>os.environ.get(k)\<close> is \<open>env k\<close>.
  A value is truthy when it is there and not empty.
\<close>

type_synonym environ = "string \<Rightarrow> string option"

definition env_truthy :: "environ \<Rightarrow> string \<Rightarrow> bool" where
  "env_truthy env k = (case env k of None \<Rightarrow> False | Some v \<Rightarrow> v \<noteq> [])"

definition env_get_or :: "environ \<Rightarrow> string \<Rightarrow> string \<Rightarrow> string" where
  "env_get_or env k dflt = (case env k of None \<Rightarrow> dflt | Some v \<Rightarrow> v)"

definition environ_item :: "environ \<Rightarrow> string \<Rightarrow> error + string" where
  "environ_item env k = (case env k of None \<Rightarrow> Inl KeyError | Some v \<Rightarrow> Inr v)"

text \<open>
  \<open>apply_fields(obj, fields)\<close>: a variable that is present is applied, whatever its
  value; \<open>parse_value\<close> is evaluated before \<open>set_nested\<close> is entered.
\<close>

fun apply_fields ::
  "'f runtime \<Rightarrow> environ \<Rightarrow> 'f json \<Rightarrow> (string \<times> string \<times> string) list \<Rightarrow> error + 'f json"
where
  "apply_fields rt env obj [] = Inr obj"
| "apply_fields rt env obj ((env_var, json_path, type_hint) # rest) =
     (case env env_var of
        None \<Rightarrow> apply_fields rt env obj rest
      | Some val \<Rightarrow>
          and_then (parse_value rt val type_hint) (\<lambda>v.
          and_then (set_nested obj json_path v) (\<lambda>obj'.
          apply_fields rt env obj' rest)))"

text \<open>\<open>_auto_type(raw)\<close>: boolean literal, integer, float, JSON literal, else the string.\<close>

definition auto_type :: "'f runtime \<Rightarrow> string \<Rightarrow> 'f json" where
  "auto_type rt raw =
     (if lower raw = ''true'' \<or> lower raw = ''false'' then JBool (lower raw = ''true'')
      else (case py_int rt raw of
              Some n \<Rightarrow> JInt n
            | None \<Rightarrow>
                (case py_float rt raw of
                   Some x \<Rightarrow> JFloat x
                 | None \<Rightarrow>
                     (if startswith raw ''['' \<or> startswith raw ''{'' then
                        (case json_loads rt raw of Some j \<Rightarrow> j | None \<Rightarrow> JStr raw)
                      else JStr raw))))"

text \<open>
  \<open>apply_convention_overrides(config)\<close>: the loop over \<open>sorted(os.environ.items())\<close>.
  The items are pairs of strings, sorted as Python sorts tuples.
\<close>

definition override_prefix :: string where
  "override_prefix = ''OPENCLAW_JSON__''"

definition override_path :: "string \<Rightarrow> string" where
  "override_path key = replace_dunder (drop (length override_prefix) key)"

fun apply_overrides ::
  "'f runtime \<Rightarrow> 'f json \<Rightarrow> (string \<times> string) list \<Rightarrow> error + 'f json"
where
  "apply_overrides rt config [] = Inr config"
| "apply_overrides rt config ((key, raw) # items) =
     (if \<not> startswith key override_prefix then apply_overrides rt config items
      else and_then (set_nested config (override_path key) (auto_type rt raw)) (\<lambda>config'.
           apply_overrides rt config' items))"

definition apply_convention_overrides ::
  "'f runtime \<Rightarrow> (string \<times> string) list \<Rightarrow> 'f json \<Rightarrow> error + 'f json"
where
  "apply_convention_overrides rt items config = apply_overrides rt config (sort items)"

text \<open>
  \<open>ensure(obj, *keys)\<close>: a node on the path that is missing or not a dictionary is
  replaced by an empty dictionary. \<open>k not in cur\<close> followed by \<open>cur[k] = {}\<close> or
  \<open>cur[k]\<close> raises \<open>TypeError\<close> when \<open>cur\<close> is not a dictionary. The model returns
  the changed \<open>obj\<close>; the script never uses the returned innermost dictionary.
\<close>

fun ensure :: "'f json \<Rightarrow> string list \<Rightarrow> error + 'f json" where
  "ensure obj [] = Inr obj"
| "ensure obj (k # ks) =
     (case obj of
        JDict d \<Rightarrow>
          and_then
            (ensure (case map_of d k of Some (JDict c) \<Rightarrow> JDict c | _ \<Rightarrow> JDict []) ks)
            (\<lambda>child. Inr (JDict (AList.update k child d)))
      | _ \<Rightarrow> Inl TypeError)"

text \<open>
  \<open>remove_provider(config, has_custom_config, name, label, env_hint)\<close>; the last two
  arguments are only printed.
\<close>

definition remove_provider :: "'f json \<Rightarrow> bool \<Rightarrow> string \<Rightarrow> 'f json" where
  "remove_provider config has_custom_config name =
     (if \<not> has_custom_config then
        (case get_nested config ''models.providers'' JNull of
           JDict providers \<Rightarrow>
             (if map_of providers name \<noteq> None
              then del_path config [''models'', ''providers''] name
              else config)
         | _ \<Rightarrow> config)
      else config)"

subsection \<open>The schema tables\<close>

datatype base_url = BaseUrl string | BaseUrlEnv string string

record custom_provider =
  prov_key :: string
  prov_env :: string
  prov_api :: string
  prov_base :: base_url
  prov_models :: "(string \<times> string \<times> int) list"

datatype gate_spec = GateVar string | GateList "string list"

datatype token_spec = TokenName string | TokenList "string list"

record channel =
  ch_key :: string
  ch_gate :: gate_spec
  ch_gateCheck :: "string option"
  ch_merge :: bool
  ch_tokenField :: "token_spec option"
  ch_fields :: "(string \<times> string \<times> string) list"

definition BUILTIN_PROVIDERS :: "(string \<times> string \<times> string) list" where
  "BUILTIN_PROVIDERS =
     [(''ANTHROPIC_API_KEY'', ''Anthropic'', ''anthropic''),
      (''OPENAI_API_KEY'', ''OpenAI'', ''openai''),
      (''OPENROUTER_API_KEY'', ''OpenRouter'', ''openrouter''),
      (''GEMINI_API_KEY'', ''Google Gemini'', ''google''),
      (''XAI_API_KEY'', ''xAI'', ''xai''),
      (''GROQ_API_KEY'', ''Groq'', ''groq''),
      (''MISTRAL_API_KEY'', ''Mistral'', ''mistral''),
      (''CEREBRAS_API_KEY'', ''Cerebras'', ''cerebras''),
      (''ZAI_API_KEY'', ''ZAI'', ''zai''),
      (''AI_GATEWAY_API_KEY'', ''Vercel AI Gateway'', ''vercel-ai-gateway''),
      (''COPILOT_GITHUB_TOKEN'', ''GitHub Copilot'', ''github-copilot'')]"

definition PRIMARY_MODEL_PRIORITY :: "(string \<times> string) list" where
  "PRIMARY_MODEL_PRIORITY =
     [(''ANTHROPIC_API_KEY'', ''anthropic/claude-opus-4-5-20251101''),
      (''OPENAI_API_KEY'', ''openai/gpt-5.2''),
      (''OPENROUTER_API_KEY'', ''openrouter/anthropic/claude-opus-4-5''),
      (''GEMINI_API_KEY'', ''google/gemini-2.5-pro''),
      (''_OPENCODE_KEY'', ''opencode/claude-opus-4-5''),
      (''COPILOT_GITHUB_TOKEN'', ''github-copilot/claude-opus-4-5''),
      (''XAI_API_KEY'', ''xai/grok-3''),
      (''GROQ_API_KEY'', ''groq/llama-3.3-70b-versatile''),
      (''MISTRAL_API_KEY'', ''mistral/mistral-large-latest''),
      (''CEREBRAS_API_KEY'', ''cerebras/llama-3.3-70b''),
      (''VENICE_API_KEY'', ''venice/llama-3.3-70b''),
      (''MOONSHOT_API_KEY'', ''moonshot/kimi-k2.5''),
      (''KIMI_API_KEY'', ''kimi-coding/k2p5''),
      (''MINIMAX_API_KEY'', ''minimax/MiniMax-M2.1''),
      (''SYNTHETIC_API_KEY'', ''synthetic/hf:MiniMaxAI/MiniMax-M2.1''),
      (''ZAI_API_KEY'', ''zai/glm-4.7''),
      (''AI_GATEWAY_API_KEY'', ''vercel-ai-gateway/anthropic/claude-opus-4.5''),
      (''XIAOMI_API_KEY'', ''xiaomi/mimo-v2-flash''),
      (''AWS_ACCESS_KEY_ID'', ''amazon-bedrock/anthropic.claude-opus-4-5-20251101-v1:0''),
      (''_OLLAMA_URL'', ''ollama/llama3.3'')]"

definition CUSTOM_PROVIDERS :: "custom_provider list" where
  "CUSTOM_PROVIDERS =
     [\<lparr>prov_key = ''venice'', prov_env = ''VENICE_API_KEY'', prov_api = ''openai-completions'',
        prov_base = BaseUrl ''https://api.venice.ai/api/v1'',
        prov_models = [(''llama-3.3-70b'', ''Llama 3.3 70B'', 128000)]\<rparr>,
      \<lparr>prov_key = ''minimax'', prov_env = ''MINIMAX_API_KEY'', prov_api = ''anthropic-messages'',
        prov_base = BaseUrl ''https://api.minimax.io/anthropic'',
        prov_models = [(''MiniMax-M2.1'', ''MiniMax M2.1'', 200000)]\<rparr>,
      \<lparr>prov_key = ''moonshot'', prov_env = ''MOONSHOT_API_KEY'', prov_api = ''openai-completions'',
        prov_base = BaseUrlEnv ''MOONSHOT_BASE_URL'' ''https://api.moonshot.ai/v1'',
        prov_models = [(''kimi-k2.5'', ''Kimi K2.5'', 128000)]\<rparr>,
      \<lparr>prov_key = ''kimi-coding'', prov_env = ''KIMI_API_KEY'', prov_api = ''anthropic-messages'',
        prov_base = BaseUrlEnv ''KIMI_BASE_URL'' ''https://api.moonshot.ai/anthropic'',
        prov_models = [(''k2p5'', ''Kimi K2P5'', 128000)]\<rparr>,
      \<lparr>prov_key = ''synthetic'', prov_env = ''SYNTHETIC_API_KEY'', prov_api = ''anthropic-messages'',
        prov_base = BaseUrl ''https://api.synthetic.new/anthropic'',
        prov_models = [(''hf:MiniMaxAI/MiniMax-M2.1'', ''MiniMax M2.1'', 192000)]\<rparr>,
      \<lparr>prov_key = ''xiaomi'', prov_env = ''XIAOMI_API_KEY'', prov_api = ''anthropic-messages'',
        prov_base = BaseUrl ''https://api.xiaomimimo.com/anthropic'',
        prov_models = [(''mimo-v2-flash'', ''MiMo v2 Flash'', 262144)]\<rparr>]"

definition telegram_fields :: "(string \<times> string \<times> string) list" where
  "telegram_fields =
     [(''TELEGRAM_DM_POLICY'', ''dmPolicy'', ''str''),
      (''TELEGRAM_GROUP_POLICY'', ''groupPolicy'', ''str''),
      (''TELEGRAM_REPLY_TO_MODE'', ''replyToMode'', ''str''),
      (''TELEGRAM_CHUNK_MODE'', ''chunkMode'', ''str''),
      (''TELEGRAM_STREAM_MODE'', ''streamMode'', ''str''),
      (''TELEGRAM_REACTION_NOTIFICATIONS'', ''reactionNotifications'', ''str''),
      (''TELEGRAM_REACTION_LEVEL'', ''reactionLevel'', ''str''),
      (''TELEGRAM_PROXY'', ''proxy'', ''str''),
      (''TELEGRAM_WEBHOOK_URL'', ''webhookUrl'', ''str''),
      (''TELEGRAM_WEBHOOK_SECRET'', ''webhookSecret'', ''str''),
      (''TELEGRAM_WEBHOOK_PATH'', ''webhookPath'', ''str''),
      (''TELEGRAM_MESSAGE_PREFIX'', ''messagePrefix'', ''str''),
      (''TELEGRAM_LINK_PREVIEW'', ''linkPreview'', ''bool_true''),
      (''TELEGRAM_ACTIONS_REACTIONS'', ''actions.reactions'', ''bool_true''),
      (''TELEGRAM_ACTIONS_STICKER'', ''actions.sticker'', ''bool_false''),
      (''TELEGRAM_TEXT_CHUNK_LIMIT'', ''textChunkLimit'', ''int''),
      (''TELEGRAM_MEDIA_MAX_MB'', ''mediaMaxMb'', ''int''),
      (''TELEGRAM_ALLOW_FROM'', ''allowFrom'', ''csv_smart''),
      (''TELEGRAM_GROUP_ALLOW_FROM'', ''groupAllowFrom'', ''csv_smart''),
      (''TELEGRAM_INLINE_BUTTONS'', ''capabilities.inlineButtons'', ''str'')]"

definition telegram_channel :: channel where
  "telegram_channel =
     \<lparr>ch_key = ''telegram'', ch_gate = GateVar ''TELEGRAM_BOT_TOKEN'', ch_gateCheck = None,
      ch_merge = True, ch_tokenField = Some (TokenName ''botToken''), ch_fields = telegram_fields\<rparr>"

definition discord_fields :: "(string \<times> string \<times> string) list" where
  "discord_fields =
     [(''DISCORD_DM_POLICY'', ''dm.policy'', ''str''),
      (''DISCORD_GROUP_POLICY'', ''groupPolicy'', ''str''),
      (''DISCORD_REPLY_TO_MODE'', ''replyToMode'', ''str''),
      (''DISCORD_CHUNK_MODE'', ''chunkMode'', ''str''),
      (''DISCORD_REACTION_NOTIFICATIONS'', ''reactionNotifications'', ''str''),
      (''DISCORD_MESSAGE_PREFIX'', ''messagePrefix'', ''str''),
      (''DISCORD_ALLOW_BOTS'', ''allowBots'', ''bool_false''),
      (''DISCORD_ACTIONS_REACTIONS'', ''actions.reactions'', ''bool_true''),
      (''DISCORD_ACTIONS_STICKERS'', ''actions.stickers'', ''bool_true''),
      (''DISCORD_ACTIONS_EMOJI_UPLOADS'', ''actions.emojiUploads'', ''bool_true''),
      (''DISCORD_ACTIONS_STICKER_UPLOADS'', ''actions.stickerUploads'', ''bool_true''),
      (''DISCORD_ACTIONS_POLLS'', ''actions.polls'', ''bool_true''),
      (''DISCORD_ACTIONS_PERMISSIONS'', ''actions.permissions'', ''bool_true''),
      (''DISCORD_ACTIONS_MESSAGES'', ''actions.messages'', ''bool_true''),
      (''DISCORD_ACTIONS_THREADS'', ''actions.threads'', ''bool_true''),
      (''DISCORD_ACTIONS_PINS'', ''actions.pins'', ''bool_true''),
      (''DISCORD_ACTIONS_SEARCH'', ''actions.search'', ''bool_true''),
      (''DISCORD_ACTIONS_MEMBER_INFO'', ''actions.memberInfo'', ''bool_true''),
      (''DISCORD_ACTIONS_ROLE_INFO'', ''actions.roleInfo'', ''bool_true''),
      (''DISCORD_ACTIONS_CHANNEL_INFO'', ''actions.channelInfo'', ''bool_true''),
      (''DISCORD_ACTIONS_CHANNELS'', ''actions.channels'', ''bool_true''),
      (''DISCORD_ACTIONS_VOICE_STATUS'', ''actions.voiceStatus'', ''bool_true''),
      (''DISCORD_ACTIONS_EVENTS'', ''actions.events'', ''bool_true''),
      (''DISCORD_ACTIONS_ROLES'', ''actions.roles'', ''bool_false''),
      (''DISCORD_ACTIONS_MODERATION'', ''actions.moderation'', ''bool_false''),
      (''DISCORD_TEXT_CHUNK_LIMIT'', ''textChunkLimit'', ''int''),
      (''DISCORD_MAX_LINES_PER_MESSAGE'', ''maxLinesPerMessage'', ''int''),
      (''DISCORD_MEDIA_MAX_MB'', ''mediaMaxMb'', ''int''),
      (''DISCORD_HISTORY_LIMIT'', ''historyLimit'', ''int''),
      (''DISCORD_DM_HISTORY_LIMIT'', ''dmHistoryLimit'', ''int''),
      (''DISCORD_DM_ALLOW_FROM'', ''dm.allowFrom'', ''csv'')]"

definition discord_channel :: channel where
  "discord_channel =
     \<lparr>ch_key = ''discord'', ch_gate = GateVar ''DISCORD_BOT_TOKEN'', ch_gateCheck = None,
      ch_merge = True, ch_tokenField = Some (TokenName ''token''), ch_fields = discord_fields\<rparr>"

definition slack_fields :: "(string \<times> string \<times> string) list" where
  "slack_fields =
     [(''SLACK_USER_TOKEN'', ''userToken'', ''str''),
      (''SLACK_SIGNING_SECRET'', ''signingSecret'', ''str''),
      (''SLACK_MODE'', ''mode'', ''str''),
      (''SLACK_WEBHOOK_PATH'', ''webhookPath'', ''str''),
      (''SLACK_DM_POLICY'', ''dm.policy'', ''str''),
      (''SLACK_GROUP_POLICY'', ''groupPolicy'', ''str''),
      (''SLACK_REPLY_TO_MODE'', ''replyToMode'', ''str''),
      (''SLACK_REACTION_NOTIFICATIONS'', ''reactionNotifications'', ''str''),
      (''SLACK_CHUNK_MODE'', ''chunkMode'', ''str''),
      (''SLACK_MESSAGE_PREFIX'', ''messagePrefix'', ''str''),
      (''SLACK_ALLOW_BOTS'', ''allowBots'', ''bool_false''),
      (''SLACK_ACTIONS_REACTIONS'', ''actions.reactions'', ''bool_true''),
      (''SLACK_ACTIONS_MESSAGES'', ''actions.messages'', ''bool_true''),
      (''SLACK_ACTIONS_PINS'', ''actions.pins'', ''bool_true''),
      (''SLACK_ACTIONS_MEMBER_INFO'', ''actions.memberInfo'', ''bool_true''),
      (''SLACK_ACTIONS_EMOJI_LIST'', ''actions.emojiList'', ''bool_true''),
      (''SLACK_HISTORY_LIMIT'', ''historyLimit'', ''int''),
      (''SLACK_TEXT_CHUNK_LIMIT'', ''textChunkLimit'', ''int''),
      (''SLACK_MEDIA_MAX_MB'', ''mediaMaxMb'', ''int''),
      (''SLACK_DM_ALLOW_FROM'', ''dm.allowFrom'', ''csv'')]"

definition slack_channel :: channel where
  "slack_channel =
     \<lparr>ch_key = ''slack'', ch_gate = GateList [''SLACK_BOT_TOKEN'', ''SLACK_APP_TOKEN''], ch_gateCheck = None,
      ch_merge = True, ch_tokenField = Some (TokenList [''botToken'', ''appToken'']), ch_fields = slack_fields\<rparr>"

definition whatsapp_fields :: "(string \<times> string \<times> string) list" where
  "whatsapp_fields =
     [(''WHATSAPP_DM_POLICY'', ''dmPolicy'', ''str''),
      (''WHATSAPP_GROUP_POLICY'', ''groupPolicy'', ''str''),
      (''WHATSAPP_MESSAGE_PREFIX'', ''messagePrefix'', ''str''),
      (''WHATSAPP_SELF_CHAT_MODE'', ''selfChatMode'', ''bool_false''),
      (''WHATSAPP_SEND_READ_RECEIPTS'', ''sendReadReceipts'', ''bool_true''),
      (''WHATSAPP_ACTIONS_REACTIONS'', ''actions.reactions'', ''bool_true''),
      (''WHATSAPP_MEDIA_MAX_MB'', ''mediaMaxMb'', ''int''),
      (''WHATSAPP_HISTORY_LIMIT'', ''historyLimit'', ''int''),
      (''WHATSAPP_DM_HISTORY_LIMIT'', ''dmHistoryLimit'', ''int''),
      (''WHATSAPP_ALLOW_FROM'', ''allowFrom'', ''csv''),
      (''WHATSAPP_GROUP_ALLOW_FROM'', ''groupAllowFrom'', ''csv''),
      (''WHATSAPP_ACK_REACTION_EMOJI'', ''ackReaction.emoji'', ''str''),
      (''WHATSAPP_ACK_REACTION_DIRECT'', ''ackReaction.direct'', ''bool_true''),
      (''WHATSAPP_ACK_REACTION_GROUP'', ''ackReaction.group'', ''str'')]"

definition whatsapp_channel :: channel where
  "whatsapp_channel =
     \<lparr>ch_key = ''whatsapp'', ch_gate = GateVar ''WHATSAPP_ENABLED'', ch_gateCheck = Some ''bool'',
      ch_merge = False, ch_tokenField = None, ch_fields = whatsapp_fields\<rparr>"

definition CHANNELS :: "channel list" where
  "CHANNELS = [telegram_channel, discord_channel, slack_channel, whatsapp_channel]"

definition BROWSER_FIELDS :: "(string \<times> string \<times> string) list" where
  "BROWSER_FIELDS =
     [(''BROWSER_CDP_URL'', ''cdpUrl'', ''str''),
      (''BROWSER_EVALUATE_ENABLED'', ''evaluateEnabled'', ''bool_false''),
      (''BROWSER_SNAPSHOT_MODE'', ''snapshotDefaults.mode'', ''str''),
      (''BROWSER_REMOTE_TIMEOUT_MS'', ''remoteCdpTimeoutMs'', ''int''),
      (''BROWSER_REMOTE_HANDSHAKE_TIMEOUT_MS'', ''remoteCdpHandshakeTimeoutMs'', ''int''),
      (''BROWSER_DEFAULT_PROFILE'', ''defaultProfile'', ''str'')]"

definition HOOKS_FIELDS :: "(string \<times> string \<times> string) list" where
  "HOOKS_FIELDS =
     [(''HOOKS_TOKEN'', ''token'', ''str''),
      (''HOOKS_PATH'', ''path'', ''str'')]"

subsection \<open>The sections of main\<close>

text \<open>
  Section 1, loading. \<open>None\<close> is a file that is missing or does not parse. The bundled
  document replaces the empty configuration and sets the flag; the persisted document is
  merged into the result, and what \<open>deep_merge\<close> raises is not caught.
\<close>

definition load_config ::
  "'f json option \<Rightarrow> 'f json option \<Rightarrow> error + ('f json \<times> bool)"
where
  "load_config custom persisted =
     (let config = (case custom of None \<Rightarrow> JDict [] | Some c \<Rightarrow> c);
          has_custom_config = (custom \<noteq> None)
      in case persisted of
           None \<Rightarrow> Inr (config, has_custom_config)
         | Some p \<Rightarrow> and_then (deep_merge config p) (\<lambda>merged. Inr (merged, has_custom_config)))"

text \<open>\<open>config[p1]...[pn].get(k)\<close>.\<close>

definition get_in :: "'f json \<Rightarrow> string list \<Rightarrow> string \<Rightarrow> error + 'f json" where
  "get_in config path k = and_then (getitems config path) (\<lambda>d. dict_get d k)"

text \<open>Section 2, the gateway.\<close>

definition configure_gateway :: "'f runtime \<Rightarrow> environ \<Rightarrow> 'f json \<Rightarrow> error + 'f json" where
  "configure_gateway rt env config0 =
     and_then (ensure config0 [''gateway'']) (\<lambda>config.
     and_then
       (if env_truthy env ''OPENCLAW_GATEWAY_PORT'' then
          and_then (environ_item env ''OPENCLAW_GATEWAY_PORT'') (\<lambda>raw.
          case py_int rt raw of
            None \<Rightarrow> Inl ValueError
          | Some n \<Rightarrow> setitems config [''gateway'', ''port''] (JInt n))
        else
          and_then (get_in config [''gateway''] ''port'') (\<lambda>port.
          if \<not> truthy rt port then setitems config [''gateway'', ''port''] (JInt 18789)
          else Inr config)) (\<lambda>config.
     and_then
       (and_then (get_in config [''gateway''] ''mode'') (\<lambda>mode.
        if \<not> truthy rt mode then setitems config [''gateway'', ''mode''] (JStr ''local'')
        else Inr config)) (\<lambda>config.
     and_then
       (let token = strip (env_get_or env ''OPENCLAW_GATEWAY_TOKEN'' [])
        in if token \<noteq> [] then
             and_then (ensure config [''gateway'', ''auth'']) (\<lambda>config.
             and_then (setitems config [''gateway'', ''auth'', ''mode''] (JStr ''token''))
               (\<lambda>config.
             setitems config [''gateway'', ''auth'', ''token''] (JStr token)))
           else Inr config) (\<lambda>config.
     and_then (ensure config [''gateway'', ''controlUi'']) (\<lambda>config.
     and_then
       (and_then (get_in config [''gateway'', ''controlUi''] ''allowInsecureAuth'') (\<lambda>v.
        if v = JNull
        then setitems config [''gateway'', ''controlUi'', ''allowInsecureAuth''] (JBool True)
        else Inr config)) (\<lambda>config.
     and_then (get_in config [''gateway'', ''controlUi''] ''enabled'') (\<lambda>v.
     if v = JNull then setitems config [''gateway'', ''controlUi'', ''enabled''] (JBool True)
     else Inr config)))))))"

text \<open>Section 3, the agents defaults.\<close>

definition WORKSPACE_DIR :: "environ \<Rightarrow> string" where
  "WORKSPACE_DIR env =
     rstrip_chars ''/'' (env_get_or env ''OPENCLAW_WORKSPACE_DIR'' ''/data/workspace'')"

definition configure_agents :: "'f runtime \<Rightarrow> environ \<Rightarrow> 'f json \<Rightarrow> error + 'f json" where
  "configure_agents rt env config0 =
     and_then (ensure config0 [''agents'', ''defaults'']) (\<lambda>config.
     and_then
       (and_then (get_in config [''agents'', ''defaults''] ''workspace'') (\<lambda>w.
        if \<not> truthy rt w
        then setitems config [''agents'', ''defaults'', ''workspace''] (JStr (WORKSPACE_DIR env))
        else Inr config)) (\<lambda>config.
     ensure config [''agents'', ''defaults'', ''model'']))"

text \<open>Section 4, the custom providers: the loop over \<open>CUSTOM_PROVIDERS\<close>.\<close>

definition model_descriptor :: "string \<times> string \<times> int \<Rightarrow> 'f json" where
  "model_descriptor m =
     (case m of (ident, name, window) \<Rightarrow>
        JDict [(''id'', JStr ident), (''name'', JStr name), (''contextWindow'', JInt window)])"

definition provider_entry :: "environ \<Rightarrow> custom_provider \<Rightarrow> string \<Rightarrow> 'f json" where
  "provider_entry env prov api_key =
     JDict ([(''api'', JStr (prov_api prov)),
             (''apiKey'', JStr api_key),
             (''models'', JList (map model_descriptor (prov_models prov)))] @
            (case prov_base prov of
               BaseUrl url \<Rightarrow> [(''baseUrl'', JStr url)]
             | BaseUrlEnv var dflt \<Rightarrow>
                 [(''baseUrl'', JStr (rstrip_chars ''/'' (env_get_or env var dflt)))]))"

fun configure_custom_providers ::
  "environ \<Rightarrow> bool \<Rightarrow> 'f json \<Rightarrow> custom_provider list \<Rightarrow> error + 'f json"
where
  "configure_custom_providers env has_custom_config config [] = Inr config"
| "configure_custom_providers env has_custom_config config (prov # provs) =
     and_then
       (let api_key = (case env (prov_env prov) of None \<Rightarrow> [] | Some v \<Rightarrow> v)
        in if api_key \<noteq> [] then
             and_then (ensure config [''models'', ''providers'']) (\<lambda>config.
             setitems config [''models'', ''providers'', prov_key prov]
               (provider_entry env prov api_key))
           else Inr (remove_provider config has_custom_config (prov_key prov)))
       (\<lambda>config. configure_custom_providers env has_custom_config config provs)"

text \<open>
  Section 5, Amazon Bedrock. Without credentials and without a bundled document, the
  script runs the body of \<open>remove_provider\<close> for \<open>amazon-bedrock\<close> and pops
  \<open>bedrockDiscovery\<close>.
\<close>

definition aws_region :: "environ \<Rightarrow> string" where
  "aws_region env =
     (if env_truthy env ''AWS_REGION'' then env_get_or env ''AWS_REGION'' []
      else if env_truthy env ''AWS_DEFAULT_REGION'' then env_get_or env ''AWS_DEFAULT_REGION'' []
      else ''us-east-1'')"

definition bedrock_entry :: "string \<Rightarrow> 'f json" where
  "bedrock_entry region =
     JDict [(''api'', JStr ''bedrock-converse-stream''),
            (''baseUrl'', JStr (''https://bedrock-runtime.'' @ region @ ''.amazonaws.com'')),
            (''models'', JList
               [model_descriptor (''anthropic.claude-opus-4-5-20251101-v1:0'',
                                  ''Claude Opus 4.5 (Bedrock)'', 200000),
                model_descriptor (''anthropic.claude-sonnet-4-5-20250929-v1:0'',
                                  ''Claude Sonnet 4.5 (Bedrock)'', 200000)])]"

definition bedrock_discovery :: "environ \<Rightarrow> string \<Rightarrow> 'f json" where
  "bedrock_discovery env region =
     JDict [(''enabled'', JBool True),
            (''region'', JStr region),
            (''providerFilter'', JStr (env_get_or env ''BEDROCK_PROVIDER_FILTER'' ''anthropic'')),
            (''refreshInterval'', JInt 3600)]"

definition aws_credentials :: "environ \<Rightarrow> bool" where
  "aws_credentials env =
     (env_truthy env ''AWS_ACCESS_KEY_ID'' \<and> env_truthy env ''AWS_SECRET_ACCESS_KEY'')"

definition configure_bedrock :: "environ \<Rightarrow> bool \<Rightarrow> 'f json \<Rightarrow> error + 'f json" where
  "configure_bedrock env has_custom_config config0 =
     (if aws_credentials env then
        and_then (ensure config0 [''models'', ''providers'']) (\<lambda>config.
        and_then (setitems config [''models'', ''providers'', ''amazon-bedrock'']
                    (bedrock_entry (aws_region env))) (\<lambda>config.
        and_then (ensure config [''models'']) (\<lambda>config.
        setitems config [''models'', ''bedrockDiscovery'']
          (bedrock_discovery env (aws_region env)))))
      else if \<not> has_custom_config then
        (let config = remove_provider config0 False ''amazon-bedrock''
         in and_then (dict_get config ''models'') (\<lambda>models.
            if is_dict models then Inr (del_path config [''models''] ''bedrockDiscovery'')
            else Inr config))
      else Inr config0)"

text \<open>Section 6, Ollama.\<close>

definition ollama_url :: "environ \<Rightarrow> string" where
  "ollama_url env = rstrip_chars ''/'' (env_get_or env ''OLLAMA_BASE_URL'' [])"

definition ollama_entry :: "string \<Rightarrow> 'f json" where
  "ollama_entry url =
     JDict [(''api'', JStr ''openai-completions''),
            (''baseUrl'', JStr (if endswith url ''/v1'' then url else url @ ''/v1'')),
            (''models'', JList [model_descriptor (''llama3.3'', ''Llama 3.3'', 128000)])]"

definition configure_ollama :: "environ \<Rightarrow> bool \<Rightarrow> 'f json \<Rightarrow> error + 'f json" where
  "configure_ollama env has_custom_config config0 =
     (if ollama_url env \<noteq> [] then
        and_then (ensure config0 [''models'', ''providers'']) (\<lambda>config.
        setitems config [''models'', ''providers'', ''ollama''] (ollama_entry (ollama_url env)))
      else Inr (remove_provider config0 has_custom_config ''ollama''))"

text \<open>
  Section 7, the stale entries of built-in providers: the loop over
  \<open>BUILTIN_PROVIDERS\<close>, then the same for \<open>opencode\<close>. The body of the loop is the
  body of \<open>remove_provider\<close>, written out in the script.
\<close>

definition opencode_key :: "environ \<Rightarrow> string option" where
  "opencode_key env =
     (if env_truthy env ''OPENCODE_API_KEY'' then env ''OPENCODE_API_KEY''
      else env ''OPENCODE_ZEN_API_KEY'')"

fun clean_builtin ::
  "bool \<Rightarrow> 'f json \<Rightarrow> (string \<times> string \<times> string) list \<Rightarrow> 'f json"
where
  "clean_builtin has_custom_config config [] = config"
| "clean_builtin has_custom_config config ((env_key, label, provider_key) # rest) =
     clean_builtin has_custom_config
       (remove_provider config has_custom_config provider_key) rest"

definition clean_builtin_providers :: "bool \<Rightarrow> 'f json \<Rightarrow> 'f json" where
  "clean_builtin_providers has_custom_config config =
     remove_provider (clean_builtin has_custom_config config BUILTIN_PROVIDERS)
       has_custom_config ''opencode''"

text \<open>
  Section 8, the primary model. \<open>resolved_env\<close> is a copy of the environment with the
  two derived signals stored under their special names.
\<close>

definition resolved_env :: "environ \<Rightarrow> environ" where
  "resolved_env env =
     (env(''_OPENCODE_KEY'' \<mapsto> (case opencode_key env of None \<Rightarrow> [] | Some v \<Rightarrow> v)))
       (''_OLLAMA_URL'' \<mapsto> ollama_url env)"

fun first_model :: "environ \<Rightarrow> (string \<times> string) list \<Rightarrow> string option" where
  "first_model renv [] = None"
| "first_model renv ((env_key, model) # rest) =
     (if env_truthy renv env_key then Some model else first_model renv rest)"

definition primary_path :: "string list" where
  "primary_path = [''agents'', ''defaults'', ''model'', ''primary'']"

definition select_primary_model :: "'f runtime \<Rightarrow> environ \<Rightarrow> 'f json \<Rightarrow> error + 'f json" where
  "select_primary_model rt env config =
     (if env_truthy env ''OPENCLAW_PRIMARY_MODEL'' then
        and_then (environ_item env ''OPENCLAW_PRIMARY_MODEL'') (\<lambda>m.
        setitems config primary_path (JStr m))
      else
        and_then (get_in config [''agents'', ''defaults'', ''model''] ''primary'') (\<lambda>p.
        if truthy rt p then Inr config
        else (case first_model (resolved_env env) PRIMARY_MODEL_PRIORITY of
                None \<Rightarrow> Inr config
              | Some model \<Rightarrow> setitems config primary_path (JStr model))))"

text \<open>Section 9, Deepgram.\<close>

definition configure_deepgram :: "environ \<Rightarrow> 'f json \<Rightarrow> error + 'f json" where
  "configure_deepgram env config0 =
     (if env_truthy env ''DEEPGRAM_API_KEY'' then
        and_then (ensure config0 [''tools'', ''media'', ''audio'']) (\<lambda>config.
        and_then (setitems config [''tools'', ''media'', ''audio'', ''enabled''] (JBool True))
          (\<lambda>config.
        setitems config [''tools'', ''media'', ''audio'', ''models'']
          (JList [JDict [(''provider'', JStr ''deepgram''), (''model'', JStr ''nova-3'')]])))
      else Inr config0)"

text \<open>
  Section 10, the channels. The gate is open when all variables of a list are truthy,
  or, with \<open>gateCheck = "bool"\<close>, when the variable lowers to \<open>true\<close> or \<open>1\<close>, or
  when the single variable is truthy.
\<close>

definition gate_open :: "environ \<Rightarrow> channel \<Rightarrow> bool" where
  "gate_open env ch =
     (case ch_gate ch of
        GateList gs \<Rightarrow> list_all (env_truthy env) gs
      | GateVar g \<Rightarrow>
          (if (case ch_gateCheck ch of None \<Rightarrow> ''token'' | Some c \<Rightarrow> c) = ''bool'' then
             (let val = env_get_or env g [] in lower val = ''true'' \<or> lower val = ''1'')
           else env_truthy env g))"

fun set_token_list ::
  "environ \<Rightarrow> 'f json \<Rightarrow> (string \<times> string) list \<Rightarrow> error + 'f json"
where
  "set_token_list env channel_obj [] = Inr channel_obj"
| "set_token_list env channel_obj ((g, tf) # rest) =
     and_then (environ_item env g) (\<lambda>v.
     and_then (setitem channel_obj tf (JStr v)) (\<lambda>channel_obj'.
     set_token_list env channel_obj' rest))"

definition set_tokens :: "environ \<Rightarrow> channel \<Rightarrow> 'f json \<Rightarrow> error + 'f json" where
  "set_tokens env ch channel_obj =
     (case ch_tokenField ch of
        None \<Rightarrow> Inr channel_obj
      | Some (TokenList tfs) \<Rightarrow>
          (case ch_gate ch of
             GateList gs \<Rightarrow>
               (if tfs \<noteq> [] then set_token_list env channel_obj (zip gs tfs)
                else Inr channel_obj)
           | GateVar g \<Rightarrow> Inr channel_obj)
      | Some (TokenName tf) \<Rightarrow>
          (case ch_gate ch of
             GateVar g \<Rightarrow>
               (if tf \<noteq> [] then
                  and_then (environ_item env g) (\<lambda>v. setitem channel_obj tf (JStr v))
                else Inr channel_obj)
           | GateList gs \<Rightarrow> Inr channel_obj))"

text \<open>
  \<open>d.setdefault(k, dflt)\<close>: the changed dictionary and the value handed back.
\<close>

fun setdefault :: "'f json \<Rightarrow> string \<Rightarrow> 'f json \<Rightarrow> error + ('f json \<times> 'f json)" where
  "setdefault (JDict d) k dflt =
     (case map_of d k of
        None \<Rightarrow> Inr (JDict (AList.update k dflt d), dflt)
      | Some v \<Rightarrow> Inr (JDict d, v))"
| "setdefault _ k dflt = Inl AttributeError"

text \<open>
  One round of the loop. With \<open>merge\<close>, \<open>setdefault\<close> hands back the node that is
  already there, whatever it is; \<open>channel_obj["enabled"] = True\<close> raises on a node that
  is not a dictionary. A closed gate changes nothing (the script only prints).
\<close>

definition configure_channel ::
  "'f runtime \<Rightarrow> environ \<Rightarrow> 'f json \<Rightarrow> channel \<Rightarrow> error + 'f json"
where
  "configure_channel rt env config0 ch =
     (if gate_open env ch then
        and_then (ensure config0 [''channels'']) (\<lambda>config.
        and_then (getitems config [''channels'']) (\<lambda>channels.
        and_then
          (if ch_merge ch then
             and_then (setdefault channels (ch_key ch) (JDict [])) (\<lambda>r. Inr (snd r))
           else Inr (JDict [])) (\<lambda>channel_obj.
        and_then (setitem channel_obj ''enabled'' (JBool True)) (\<lambda>channel_obj.
        and_then (set_tokens env ch channel_obj) (\<lambda>channel_obj.
        and_then (apply_fields rt env channel_obj (ch_fields ch)) (\<lambda>channel_obj.
        setitems config [''channels'', ch_key ch] channel_obj))))))
      else Inr config0)"


fun configure_channels ::
  "'f runtime \<Rightarrow> environ \<Rightarrow> 'f json \<Rightarrow> channel list \<Rightarrow> error + 'f json"
where
  "configure_channels rt env config [] = Inr config"
| "configure_channels rt env config (ch # chs) =
     and_then (configure_channel rt env config ch) (\<lambda>config'.
     configure_channels rt env config' chs)"

text \<open>After the loop an empty \<open>channels\<close> dictionary is deleted.\<close>

definition cleanup_channels :: "'f json \<Rightarrow> error + 'f json" where
  "cleanup_channels config =
     and_then (dict_get config ''channels'') (\<lambda>channels.
     case channels of
       JDict [] \<Rightarrow> Inr (del_path config [] ''channels'')
     | _ \<Rightarrow> Inr config)"

text \<open>Sections 11 and 12, the browser tool and the hooks.\<close>

definition configure_browser :: "'f runtime \<Rightarrow> environ \<Rightarrow> 'f json \<Rightarrow> error + 'f json" where
  "configure_browser rt env config0 =
     (if env_truthy env ''BROWSER_CDP_URL'' then
        and_then (ensure config0 [''browser'']) (\<lambda>config.
        and_then (getitem config ''browser'') (\<lambda>browser.
        and_then (apply_fields rt env browser BROWSER_FIELDS) (\<lambda>browser'.
        setitem config ''browser'' browser')))
      else Inr config0)"

definition hooks_gate :: "environ \<Rightarrow> bool" where
  "hooks_gate env =
     (let hooks_val = env_get_or env ''HOOKS_ENABLED'' []
      in lower hooks_val = ''true'' \<or> lower hooks_val = ''1'')"

definition configure_hooks :: "'f runtime \<Rightarrow> environ \<Rightarrow> 'f json \<Rightarrow> error + 'f json" where
  "configure_hooks rt env config0 =
     (if hooks_gate env then
        and_then (ensure config0 [''hooks'']) (\<lambda>config.
        and_then (setitems config [''hooks'', ''enabled''] (JBool True)) (\<lambda>config.
        and_then (getitem config ''hooks'') (\<lambda>hooks.
        and_then (apply_fields rt env hooks HOOKS_FIELDS) (\<lambda>hooks'.
        setitem config ''hooks'' hooks'))))
      else Inr config0)"

text \<open>
  Section 14, the validation, with the lines printed to standard error before
  \<open>sys.exit(1)\<close>.
\<close>

definition has_provider :: "environ \<Rightarrow> bool" where
  "has_provider env =
     (list_ex (\<lambda>b. env_truthy env (fst b)) BUILTIN_PROVIDERS
      \<or> (case opencode_key env of None \<Rightarrow> False | Some v \<Rightarrow> v \<noteq> [])
      \<or> aws_credentials env
      \<or> ollama_url env \<noteq> []
      \<or> list_ex (\<lambda>p. env_truthy env (prov_env p)) CUSTOM_PROVIDERS)"

definition no_provider_message :: "string list" where
  "no_provider_message =
     [''[configure] ERROR: No AI provider API key set.'',
      ''[configure] Providers require an env var -- API keys are never read from the JSON config.'',
      ''[configure] Set one of: ANTHROPIC_API_KEY, OPENAI_API_KEY, OPENROUTER_API_KEY, GEMINI_API_KEY,'',
      ''[configure]   XAI_API_KEY, GROQ_API_KEY, MISTRAL_API_KEY, CEREBRAS_API_KEY, ZAI_API_KEY,'',
      ''[configure]   AI_GATEWAY_API_KEY, OPENCODE_API_KEY, COPILOT_GITHUB_TOKEN, VENICE_API_KEY,'',
      ''[configure]   MOONSHOT_API_KEY, KIMI_API_KEY, MINIMAX_API_KEY, SYNTHETIC_API_KEY, XIAOMI_API_KEY,'',
      ''[configure]   AWS_ACCESS_KEY_ID+AWS_SECRET_ACCESS_KEY (Bedrock), or OLLAMA_BASE_URL (local)'']"

definition validate :: "environ \<Rightarrow> 'f json \<Rightarrow> error + 'f json" where
  "validate env config =
     (if \<not> has_provider env then Inl (SystemExit 1 no_provider_message) else Inr config)"

text \<open>
  Sections 2 to 12 in the order of the script; then sections 1 to 13, which end with
  the convention overrides; then the validation of section 14, whose result is the
  document that section 15 writes. \<open>items\<close> is \<open>os.environ.items()\<close>, a list of
  pairs with one pair for each name.
\<close>

definition schema_stages ::
  "'f runtime \<Rightarrow> environ \<Rightarrow> bool \<Rightarrow> 'f json \<Rightarrow> error + 'f json"
where
  "schema_stages rt env has_custom_config config0 =
     and_then (configure_gateway rt env config0) (\<lambda>config.
     and_then (configure_agents rt env config) (\<lambda>config.
     and_then (configure_custom_providers env has_custom_config config CUSTOM_PROVIDERS)
       (\<lambda>config.
     and_then (configure_bedrock env has_custom_config config) (\<lambda>config.
     and_then (configure_ollama env has_custom_config config) (\<lambda>config.
     and_then (select_primary_model rt env (clean_builtin_providers has_custom_config config))
       (\<lambda>config.
     and_then (configure_deepgram env config) (\<lambda>config.
     and_then (configure_channels rt env config CHANNELS) (\<lambda>config.
     and_then (cleanup_channels config) (\<lambda>config.
     and_then (configure_browser rt env config) (\<lambda>config.
     configure_hooks rt env config))))))))))"

definition build_config ::
  "'f runtime \<Rightarrow> (string \<times> string) list \<Rightarrow> 'f json option \<Rightarrow> 'f json option
     \<Rightarrow> error + 'f json"
where
  "build_config rt items custom persisted =
     and_then (load_config custom persisted) (\<lambda>loaded.
     and_then (schema_stages rt (map_of items) (snd loaded) (fst loaded)) (\<lambda>config.
     apply_convention_overrides rt items config))"

definition resolve ::
  "'f runtime \<Rightarrow> (string \<times> string) list \<Rightarrow> 'f json option \<Rightarrow> 'f json option
     \<Rightarrow> error + 'f json"
where
  "resolve rt items custom persisted =
     and_then (build_config rt items custom persisted) (\<lambda>config.
     validate (map_of items) config)"

subsection \<open>The Caddy snippets and the whole run\<close>

definition NL :: string where
  "NL = [CHR 0x0A]"

definition DQ :: string where
  "DQ = [CHR 0x22]"

text \<open>
  \<open>hash_result\<close> is what \<open>caddy hash-password\<close> returned (return code and standard
  output); the script runs it only when \<open>AUTH_PASSWORD\<close> is not empty.
\<close>

definition auth_content :: "environ \<Rightarrow> int \<times> string \<Rightarrow> string" where
  "auth_content env hash_result =
     (let auth_password = env_get_or env ''AUTH_PASSWORD'' [];
          auth_username = env_get_or env ''AUTH_USERNAME'' ''admin''
      in if auth_password \<noteq> [] then
           (if fst hash_result = 0 then
              ''(auth_block) {'' @ NL @
              ''    basicauth {'' @ NL @
              ''        '' @ auth_username @ '' '' @ strip (snd hash_result) @ NL @
              ''    }'' @ NL @
              ''}'' @ NL
            else ''(auth_block) {}'' @ NL)
         else ''(auth_block) {}'' @ NL)"

text \<open>
  \<open>config.get("hooks", {}).get("enabled")\<close> raises when \<open>hooks\<close> is there and is not a
  dictionary.
\<close>

definition hooks_content :: "'f runtime \<Rightarrow> environ \<Rightarrow> 'f json \<Rightarrow> error + string" where
  "hooks_content rt env config =
     (let hooks_path = get_nested config ''hooks.path'' (JStr ''/hooks'')
      in and_then (case config of
                     JDict d \<Rightarrow>
                       Inr (case map_of d ''hooks'' of None \<Rightarrow> JDict [] | Some h \<Rightarrow> h)
                   | _ \<Rightarrow> Inl AttributeError) (\<lambda>hooks.
         and_then (dict_get hooks ''enabled'') (\<lambda>enabled.
         if truthy rt enabled then
           (let gw_port = env_get_or env ''OPENCLAW_GATEWAY_PORT'' ''18789'';
                gw_token = env_get_or env ''OPENCLAW_GATEWAY_TOKEN'' []
            in Inr (''handle '' @ py_str rt hooks_path @ ''* {'' @ NL @
                    ''    reverse_proxy localhost:'' @ gw_port @ '' {'' @ NL @
                    ''        header_up Authorization '' @ DQ @ ''Bearer '' @ gw_token @ DQ @ NL @
                    ''    }'' @ NL @
                    ''}'' @ NL))
         else Inr [])))"

text \<open>
  The run: what it left in the three files and how it ended (\<open>None\<close> is exit code 0).
  The document is written before the snippets, and \<open>auth.caddyfile\<close> before
  \<open>hooks.caddyfile\<close>. The text of the written document is \<open>json.dumps\<close> of the
  tree, key order included.
\<close>

record 'f outcome =
  config_file :: "'f json option"
  auth_caddyfile :: "string option"
  hooks_caddyfile :: "string option"
  exit_error :: "error option"

definition main ::
  "'f runtime \<Rightarrow> (string \<times> string) list \<Rightarrow> 'f json option \<Rightarrow> 'f json option
     \<Rightarrow> int \<times> string \<Rightarrow> 'f outcome"
where
  "main rt items custom persisted hash_result =
     (case resolve rt items custom persisted of
        Inl e \<Rightarrow>
          \<lparr>config_file = None, auth_caddyfile = None, hooks_caddyfile = None,
           exit_error = Some e\<rparr>
      | Inr config \<Rightarrow>
          (case hooks_content rt (map_of items) config of
             Inl e \<Rightarrow>
               \<lparr>config_file = Some config,
                auth_caddyfile = Some (auth_content (map_of items) hash_result),
                hooks_caddyfile = None, exit_error = Some e\<rparr>
           | Inr hooks \<Rightarrow>
               \<lparr>config_file = Some config,
                auth_caddyfile = Some (auth_content (map_of items) hash_result),
                hooks_caddyfile = Some hooks, exit_error = None\<rparr>))"

text \<open>
  A runtime for closed examples: \<open>int\<close> on ASCII input (optional sign, digits, single
  underscores between digits, surrounding white space); \<open>float\<close> and \<open>json.loads\<close>
  reject their input, so it is used only where Python rejects it too or never gets there.
\<close>

definition is_digit :: "char \<Rightarrow> bool" where
  "is_digit c = (CHR ''0'' \<le> c \<and> c \<le> CHR ''9'')"

fun digits_value :: "int \<Rightarrow> bool \<Rightarrow> string \<Rightarrow> int option" where
  "digits_value acc after_digit [] = (if after_digit then Some acc else None)"
| "digits_value acc after_digit (c # cs) =
     (if is_digit c then digits_value (10 * acc + (int (of_char c) - 48)) True cs
      else if c = CHR ''_'' \<and> after_digit \<and> cs \<noteq> [] \<and> is_digit (hd cs)
        then digits_value acc False cs
      else None)"

definition ascii_int :: "string \<Rightarrow> int option" where
  "ascii_int raw =
     (case strip raw of
        [] \<Rightarrow> None
      | c # cs \<Rightarrow>
          (if c = CHR ''-'' then map_option uminus (digits_value 0 False cs)
           else if c = CHR ''+'' then digits_value 0 False cs
           else digits_value 0 False (c # cs)))"

definition example_runtime :: "unit runtime" where
  "example_runtime =
     \<lparr>py_int = ascii_int, py_float = (\<lambda>s. None), float_bool = (\<lambda>x. True),
      json_loads = (\<lambda>s. None), py_str = (\<lambda>v. case v of JStr s \<Rightarrow> s | _ \<Rightarrow> [])\<rparr>"

subsection \<open>Notions used in the statements\<close>

text \<open>
  The entry of a mapping at a key (\<open>None\<close> when the node is not a mapping or has no
  such key), the entry of a channel under \<open>channels\<close> and the entry of a provider
  under \<open>models.providers\<close>.
\<close>

definition entry_at :: "'f json \<Rightarrow> string \<Rightarrow> 'f json option" where
  "entry_at obj k = (case obj of JDict d \<Rightarrow> map_of d k | _ \<Rightarrow> None)"

definition channel_entry :: "'f json \<Rightarrow> string \<Rightarrow> 'f json option" where
  "channel_entry doc key =
     (case entry_at doc ''channels'' of None \<Rightarrow> None | Some channels \<Rightarrow> entry_at channels key)"

definition provider_at :: "'f json \<Rightarrow> string \<Rightarrow> 'f json option" where
  "provider_at doc key =
     (case entry_at doc ''models'' of
        None \<Rightarrow> None
      | Some models \<Rightarrow>
          (case entry_at models ''providers'' of
             None \<Rightarrow> None
           | Some providers \<Rightarrow> entry_at providers key))"

text \<open>The identifiers of the built-in providers: the table's and \<open>opencode\<close>.\<close>

definition builtin_ids :: "string list" where
  "builtin_ids = map (\<lambda>b. snd (snd b)) BUILTIN_PROVIDERS @ [''opencode'']"

text \<open>The first segment of the path of a convention override.\<close>

definition override_root :: "string \<Rightarrow> string" where
  "override_root key = hd (split_on CHR ''.'' (override_path key))"

text \<open>
  Two paths are independent when neither list of segments is a prefix of the other:
  setting one does not change what is read at the other.
\<close>

definition is_prefix :: "string list \<Rightarrow> string list \<Rightarrow> bool" where
  "is_prefix xs ys = (take (length xs) ys = xs)"


text \<open>\<open>sys.exit\<close> as opposed to an exception.\<close>

fun is_exit :: "error \<Rightarrow> bool" where
  "is_exit (SystemExit code msg) = True"
| "is_exit _ = False"

text \<open>
  A step keeps an observation of the document when the document it returns shows what
  the document it started from showed; a result is no exit when it is not \<open>sys.exit\<close>.
\<close>

definition keeps :: "('f json \<Rightarrow> 'a) \<Rightarrow> 'f json \<Rightarrow> error + 'f json \<Rightarrow> bool" where
  "keeps obs c r = (case r of Inl e \<Rightarrow> True | Inr c' \<Rightarrow> obs c' = obs c)"

definition no_exit :: "error + 'a \<Rightarrow> bool" where
  "no_exit r = (case r of Inl e \<Rightarrow> \<not> is_exit e | Inr x \<Rightarrow> True)"

section \<open>Properties\<close>

subsection \<open>Evaluation and sequencing\<close>

text \<open>
  Closed runs are evaluated by the simplifier. The congruence rule keeps it from
  rewriting a continuation before the step in front of it has produced its value.
\<close>

lemma and_then_weak_cong: "m = m' \<Longrightarrow> and_then m f = and_then m' f"
  by simp

lemma and_then_Inr_iff: "and_then m f = Inr y \<longleftrightarrow> (\<exists>x. m = Inr x \<and> f x = Inr y)"
  by (cases m) auto

lemma and_then_Inl_iff:
  "and_then m f = Inl e \<longleftrightarrow> m = Inl e \<or> (\<exists>x. m = Inr x \<and> f x = Inl e)"
  by (cases m) auto

lemmas engine_defs =
  set_nested_def get_nested_def parse_value_def csv_items_def env_truthy_def env_get_or_def
  environ_item_def auto_type_def override_prefix_def override_path_def
  apply_convention_overrides_def remove_provider_def load_config_def get_in_def
  configure_gateway_def WORKSPACE_DIR_def configure_agents_def model_descriptor_def
  provider_entry_def aws_region_def bedrock_entry_def bedrock_discovery_def
  aws_credentials_def configure_bedrock_def ollama_url_def ollama_entry_def
  configure_ollama_def opencode_key_def clean_builtin_providers_def resolved_env_def
  primary_path_def select_primary_model_def configure_deepgram_def gate_open_def
  set_tokens_def configure_channel_def cleanup_channels_def configure_browser_def
  hooks_gate_def configure_hooks_def has_provider_def validate_def schema_stages_def
  build_config_def resolve_def auth_content_def hooks_content_def main_def
  lower_def lower_char_def is_space_def rstrip_chars_def strip_def startswith_def
  endswith_def py_is_def Let_def

lemmas table_defs =
  BUILTIN_PROVIDERS_def PRIMARY_MODEL_PRIORITY_def CUSTOM_PROVIDERS_def CHANNELS_def
  telegram_channel_def discord_channel_def slack_channel_def whatsapp_channel_def
  telegram_fields_def discord_fields_def slack_fields_def whatsapp_fields_def
  BROWSER_FIELDS_def HOOKS_FIELDS_def

lemmas example_defs = example_runtime_def ascii_int_def is_digit_def

subsection \<open>Nested paths\<close>







text \<open>
  Claim C6. The claim: \<open>set_nested\<close> replaces an intermediate node that is not a
  mapping by an empty mapping and goes on, so it succeeds on every document. The code
  does not: \<open>setdefault\<close> hands back the node that is there, and the next step raises.
  On the document \<open>{"actions": true}\<close> and the path \<open>actions.reactions\<close> the call raises
  \<open>TypeError\<close>, while \<open>ensure\<close>, beside it, replaces the same node. The document
  reaches \<open>set_nested\<close> in a run: a persisted telegram entry with
  \<open>"actions": true\<close> and \<open>TELEGRAM_ACTIONS_REACTIONS\<close> set end the run with the
  exception.
\<close>

theorem set_nested_raises_on_scalar_node:
  "set_nested (JDict [(''actions'', JBool True)]) ''actions.reactions'' (JBool True)
     = Inl TypeError
   \<and> ensure (JDict [(''actions'', JBool True)]) [''actions'', ''reactions'']
     = Inr (JDict [(''actions'', JDict [(''reactions'', JDict [])])])
   \<and> resolve example_runtime
       [(''ANTHROPIC_API_KEY'', ''k''), (''TELEGRAM_BOT_TOKEN'', ''t''),
        (''TELEGRAM_ACTIONS_REACTIONS'', ''true'')]
       None
       (Some (JDict [(''channels'',
                JDict [(''telegram'', JDict [(''actions'', JBool True)])])]))
     = Inl TypeError"
  by (simp add: engine_defs table_defs example_defs cong: and_then_weak_cong)

text \<open>
  Claim C7. The claim: on every document, \<open>set_nested\<close> followed by \<open>get_nested\<close> on
  the same path returns the value that was set. On the document \<open>{"a": "x"}\<close> and the
  path \<open>a.b.c\<close> the set raises \<open>AttributeError\<close> and nothing is read back; the cause is
  the one of claim C6. (Lemma \<open>get_after_set\<close> is the round trip where the set returns.)
\<close>

theorem set_then_get_raises:
  "and_then (set_nested (JDict [(''a'', JStr ''x'')]) ''a.b.c'' (JInt 1))
     (\<lambda>doc. Inr (get_nested doc ''a.b.c'' JNull)) = Inl AttributeError"
  by (simp add: set_nested_def)

subsection \<open>Deep merge\<close>

lemma deep_merge_total:
  "\<exists>r. deep_merge (JDict t) (JDict s) = Inr (JDict r)"
proof (induction "size (JDict s)" arbitrary: t s rule: less_induct)
  case less
  show ?case
  proof (cases s)
    case Nil
    then show ?thesis by simp
  next
    case (Cons kv rest)
    obtain key val where kv: "kv = (key, val)" by (cases kv)
    have rest: "\<exists>r. deep_merge (JDict t') (JDict rest) = Inr (JDict r)" for t'
      by (rule less) (simp add: Cons)
    show ?thesis
    proof (cases "\<exists>sv tv. val = JDict sv \<and> map_of t key = Some (JDict tv)")
      case True
      then obtain sv tv where v: "val = JDict sv" and m: "map_of t key = Some (JDict tv)"
        by blast
      have "\<exists>r. deep_merge (JDict tv) (JDict sv) = Inr (JDict r)"
        by (rule less) (simp add: Cons kv v)
      then obtain r where r: "deep_merge (JDict tv) (JDict sv) = Inr (JDict r)" ..
      show ?thesis
        using rest[of "AList.update key (JDict r) t"] by (simp add: Cons kv v m r)
    next
      case False
      have "deep_merge (JDict t) (JDict s)
              = deep_merge (JDict (AList.update key val t)) (JDict rest)"
        using False by (cases val; cases "map_of t key") (auto simp: Cons kv split: json.splits)
      then show ?thesis
        using rest[of "AList.update key val t"] by simp
    qed
  qed
qed


lemma update_fresh: "map_of al k = None \<Longrightarrow> AList.update k v al = al @ [(k, v)]"
  by (induction al) (auto split: if_splits)

text \<open>One round of the loop: the value stored at \<open>key\<close>.\<close>

lemma deep_merge_step:
  "\<exists>val'. deep_merge (JDict t) (JDict ((key, val) # rest))
            = deep_merge (JDict (AList.update key val' t)) (JDict rest)
     \<and> (\<forall>sv tv. val = JDict sv \<and> map_of t key = Some (JDict tv)
            \<longrightarrow> deep_merge (JDict tv) (JDict sv) = Inr val')
     \<and> (\<not> (is_dict val \<and> (\<exists>tv. map_of t key = Some (JDict tv))) \<longrightarrow> val' = val)"
proof (cases "\<exists>sv tv. val = JDict sv \<and> map_of t key = Some (JDict tv)")
  case True
  then obtain sv tv where v: "val = JDict sv" and m: "map_of t key = Some (JDict tv)"
    by blast
  obtain r where r: "deep_merge (JDict tv) (JDict sv) = Inr (JDict r)"
    using deep_merge_total by blast
  show ?thesis
    by (rule exI[of _ "JDict r"]) (simp add: v m r)
next
  case False
  show ?thesis
    by (rule exI[of _ val]) (use False in \<open>cases val; cases "map_of t key"; auto split: json.splits\<close>)
qed

text \<open>
  Claim C5. Merging a source mapping with distinct keys into a target mapping always
  returns a mapping \<open>r\<close>, and for every key: a key the source does not have keeps
  the target's value; where both sides hold mappings, \<open>r\<close> holds the merge of the two
  (the recursion); in every other case (scalars and sequences alike) \<open>r\<close> holds the
  source's value itself. When no key of the target is a key of the source, \<open>r\<close> is the
  target's items followed by the source's: the union of both.
\<close>

theorem deep_merge_is_deep:
  assumes "distinct (map fst s)"
  shows "\<exists>r. deep_merge (JDict t) (JDict s) = Inr (JDict r)
     \<and> (\<forall>k. map_of s k = None \<longrightarrow> map_of r k = map_of t k)
     \<and> (\<forall>k sv tv. map_of s k = Some (JDict sv) \<and> map_of t k = Some (JDict tv)
           \<longrightarrow> (\<exists>m. deep_merge (JDict tv) (JDict sv) = Inr m \<and> map_of r k = Some m))
     \<and> (\<forall>k v. map_of s k = Some v \<and> \<not> (is_dict v \<and> (\<exists>tv. map_of t k = Some (JDict tv)))
           \<longrightarrow> map_of r k = Some v)
     \<and> (fst ` set t \<inter> fst ` set s = {} \<longrightarrow> r = t @ s)"
  using assms
proof (induction s arbitrary: t)
  case Nil
  then show ?case by simp
next
  case (Cons kv rest)
  obtain key val where kv: "kv = (key, val)" by (cases kv)
  from Cons.prems have fresh: "map_of rest key = None" and dist: "distinct (map fst rest)"
    by (auto simp: kv map_of_eq_None_iff)
  obtain val' where
    step: "deep_merge (JDict t) (JDict ((key, val) # rest))
             = deep_merge (JDict (AList.update key val' t)) (JDict rest)"
    and both: "\<And>sv tv. val = JDict sv \<Longrightarrow> map_of t key = Some (JDict tv)
                 \<Longrightarrow> deep_merge (JDict tv) (JDict sv) = Inr val'"
    and other: "\<not> (is_dict val \<and> (\<exists>tv. map_of t key = Some (JDict tv))) \<Longrightarrow> val' = val"
    using deep_merge_step[of t key val rest] by blast
  let ?t' = "AList.update key val' t"
  from Cons.IH[OF dist, of ?t'] obtain r where
    r: "deep_merge (JDict ?t') (JDict rest) = Inr (JDict r)"
    and keep: "\<And>k. map_of rest k = None \<Longrightarrow> map_of r k = map_of ?t' k"
    and rec: "\<And>k sv tv. map_of rest k = Some (JDict sv) \<Longrightarrow> map_of ?t' k = Some (JDict tv)
                \<Longrightarrow> \<exists>m. deep_merge (JDict tv) (JDict sv) = Inr m \<and> map_of r k = Some m"
    and repl: "\<And>k v. map_of rest k = Some v
                \<Longrightarrow> \<not> (is_dict v \<and> (\<exists>tv. map_of ?t' k = Some (JDict tv)))
                \<Longrightarrow> map_of r k = Some v"
    and union: "fst ` set ?t' \<inter> fst ` set rest = {} \<Longrightarrow> r = ?t' @ rest"
    by blast
  have at_key: "map_of r key = Some val'"
    using keep[OF fresh] by (simp add: update_conv')
  have c1: "map_of (kv # rest) k = None \<longrightarrow> map_of r k = map_of t k" for k
    using keep[of k] by (auto simp: kv update_conv' split: if_splits)
  have c2: "map_of (kv # rest) k = Some (JDict sv) \<and> map_of t k = Some (JDict tv)
              \<longrightarrow> (\<exists>m. deep_merge (JDict tv) (JDict sv) = Inr m \<and> map_of r k = Some m)"
    for k sv tv
  proof (cases "k = key")
    case True
    then show ?thesis using both[of sv tv] at_key by (auto simp: kv)
  next
    case False
    then show ?thesis using rec[of k sv tv] by (auto simp: kv update_conv')
  qed
  have c3: "map_of (kv # rest) k = Some v
              \<and> \<not> (is_dict v \<and> (\<exists>tv. map_of t k = Some (JDict tv)))
              \<longrightarrow> map_of r k = Some v" for k v
  proof (cases "k = key")
    case True
    then show ?thesis using other at_key by (auto simp: kv)
  next
    case False
    then show ?thesis using repl[of k v] by (auto simp: kv update_conv')
  qed
  have c4: "fst ` set t \<inter> fst ` set (kv # rest) = {} \<longrightarrow> r = t @ kv # rest"
  proof
    assume disj: "fst ` set t \<inter> fst ` set (kv # rest) = {}"
    then have none: "map_of t key = None"
      by (auto simp: kv map_of_eq_None_iff)
    then have "val' = val" using other by simp
    then have t': "?t' = t @ [(key, val)]" using none by (simp add: update_fresh)
    have "fst ` set ?t' \<inter> fst ` set rest = {}"
      using disj fresh by (auto simp: t' kv map_of_eq_None_iff)
    from union[OF this] show "r = t @ kv # rest" by (simp add: t' kv)
  qed
  have "deep_merge (JDict t) (JDict (kv # rest)) = Inr (JDict r)"
    using step r by (simp add: kv)
  then show ?case
    by (intro exI[of _ r] conjI allI) (rule c1 c2 c3 c4 | assumption)+
qed

theorem deep_merge_is_deep_witness:
  "distinct (map fst [(''m'', JDict [(''x'', JList [JInt 2])]), (''b'', JInt 2)])
   \<and> (\<exists>r. deep_merge
              (JDict [(''a'', JInt 1), (''m'', JDict [(''x'', JList [JInt 1]), (''y'', JInt 0)])])
              (JDict [(''m'', JDict [(''x'', JList [JInt 2])]), (''b'', JInt 2)])
            = Inr (JDict r)
          \<and> map_of r ''a'' = Some (JInt 1)
          \<and> map_of r ''b'' = Some (JInt 2)
          \<and> map_of r ''m'' = Some (JDict [(''x'', JList [JInt 2]), (''y'', JInt 0)]))
   \<and> deep_merge (JDict [(''a'', JInt 1)]) (JDict [(''b'', JList [])])
       = Inr (JDict [(''a'', JInt 1), (''b'', JList [])])"
proof -
  have d: "distinct (map fst [(''m'', JDict [(''x'', JList [JInt 2])]), (''b'', JInt 2)])"
    by simp
  have d': "distinct (map fst [(''b'', JList [])])"
    by simp
  from deep_merge_is_deep[OF d,
      of "[(''a'', JInt 1), (''m'', JDict [(''x'', JList [JInt 1]), (''y'', JInt 0)])]"]
  have first: "\<exists>r. deep_merge
              (JDict [(''a'', JInt 1), (''m'', JDict [(''x'', JList [JInt 1]), (''y'', JInt 0)])])
              (JDict [(''m'', JDict [(''x'', JList [JInt 2])]), (''b'', JInt 2)])
            = Inr (JDict r)
          \<and> map_of r ''a'' = Some (JInt 1)
          \<and> map_of r ''b'' = Some (JInt 2)
          \<and> map_of r ''m'' = Some (JDict [(''x'', JList [JInt 2]), (''y'', JInt 0)])"
    by simp
  from deep_merge_is_deep[OF d', of "[(''a'', JInt 1)]"]
  have second: "deep_merge (JDict [(''a'', JInt 1)]) (JDict [(''b'', JList [])])
       = Inr (JDict [(''a'', JInt 1), (''b'', JList [])])"
    by simp
  from d first second show ?thesis by blast
qed

subsection \<open>Empty values\<close>












subsection \<open>The primary model\<close>

lemma setitems_Cons:
  "ks \<noteq> [] \<Longrightarrow> setitems obj (k # ks) v =
     and_then (getitem obj k) (\<lambda>child.
     and_then (setitems child ks v) (\<lambda>child'. setitem obj k child'))"
  by (cases ks) auto

lemma setitems_snoc:
  "getitems config ks = Inr (JDict m) \<Longrightarrow>
     \<exists>c. setitems config (ks @ [k]) v = Inr c
        \<and> getitems c ks = Inr (JDict (AList.update k v m))"
proof (induction ks arbitrary: config)
  case Nil
  then show ?case by simp
next
  case (Cons a ks)
  from Cons.prems obtain child where child: "getitem config a = Inr child"
    and rest: "getitems child ks = Inr (JDict m)"
    by (auto simp: and_then_Inr_iff)
  from child obtain d where d: "config = JDict d" and a: "map_of d a = Some child"
    by (cases config) (auto split: option.splits)
  from Cons.IH[OF rest] obtain c' where c': "setitems child (ks @ [k]) v = Inr c'"
    and g: "getitems c' ks = Inr (JDict (AList.update k v m))"
    by blast
  have "setitems config ((a # ks) @ [k]) v = Inr (JDict (AList.update a c' d))"
    using c' by (simp add: setitems_Cons d a)
  moreover have "getitems (JDict (AList.update a c' d)) (a # ks)
                   = Inr (JDict (AList.update k v m))"
    using g by (simp add: update_conv')
  ultimately show ?case by blast
qed

lemma setitems_then_get_in:
  assumes "getitems config ks = Inr (JDict m)"
  shows "\<exists>c. setitems config (ks @ [k]) v = Inr c \<and> get_in c ks k = Inr v"
proof -
  from setitems_snoc[OF assms, of k v] obtain c where
    "setitems config (ks @ [k]) v = Inr c" "getitems c ks = Inr (JDict (AList.update k v m))"
    by blast
  then show ?thesis by (auto simp: get_in_def update_conv')
qed

lemma first_model_Some_iff:
  "first_model renv l = Some model \<longleftrightarrow>
     (\<exists>pre k post. l = pre @ (k, model) # post \<and> env_truthy renv k
                  \<and> list_all (\<lambda>e. \<not> env_truthy renv (fst e)) pre)"
proof (induction l)
  case Nil
  then show ?case by simp
next
  case (Cons e l)
  obtain k0 m0 where e: "e = (k0, m0)" by (cases e)
  show ?case
  proof (cases "env_truthy renv k0")
    case True
    show ?thesis
    proof
      assume "first_model renv (e # l) = Some model"
      with True have "m0 = model" by (simp add: e)
      with True show "\<exists>pre k post. e # l = pre @ (k, model) # post \<and> env_truthy renv k
                  \<and> list_all (\<lambda>e. \<not> env_truthy renv (fst e)) pre"
        by (intro exI[of _ "[]"] exI[of _ k0] exI[of _ l]) (simp add: e)
    next
      assume "\<exists>pre k post. e # l = pre @ (k, model) # post \<and> env_truthy renv k
                  \<and> list_all (\<lambda>e. \<not> env_truthy renv (fst e)) pre"
      then obtain pre k post where l: "e # l = pre @ (k, model) # post"
        and pre: "list_all (\<lambda>e. \<not> env_truthy renv (fst e)) pre" by blast
      from l pre True have "pre = []" by (cases pre) (auto simp: e)
      with l True show "first_model renv (e # l) = Some model" by (simp add: e)
    qed
  next
    case False
    have "(\<exists>pre k post. e # l = pre @ (k, model) # post \<and> env_truthy renv k
                  \<and> list_all (\<lambda>e. \<not> env_truthy renv (fst e)) pre)
        \<longleftrightarrow> (\<exists>pre k post. l = pre @ (k, model) # post \<and> env_truthy renv k
                  \<and> list_all (\<lambda>e. \<not> env_truthy renv (fst e)) pre)" (is "?L \<longleftrightarrow> ?R")
    proof
      assume ?L
      then obtain pre k post where l: "e # l = pre @ (k, model) # post"
        and k: "env_truthy renv k"
        and pre: "list_all (\<lambda>e. \<not> env_truthy renv (fst e)) pre" by blast
      from l k False obtain pre' where "pre = e # pre'" by (cases pre) (auto simp: e)
      with l k pre show ?R by auto
    next
      assume ?R
      then obtain pre k post where "l = pre @ (k, model) # post" "env_truthy renv k"
        "list_all (\<lambda>e. \<not> env_truthy renv (fst e)) pre" by blast
      with False show ?L
        by (intro exI[of _ "e # pre"] exI[of _ k] exI[of _ post]) (simp add: e)
    qed
    with False Cons.IH show ?thesis by (simp add: e)
  qed
qed

lemma resolved_env_signals:
  "env_truthy (resolved_env env) ''_OPENCODE_KEY''
     = (env_truthy env ''OPENCODE_API_KEY'' \<or> env_truthy env ''OPENCODE_ZEN_API_KEY'')"
  "env_truthy (resolved_env env) ''_OLLAMA_URL''
     = (rstrip_chars ''/'' (env_get_or env ''OLLAMA_BASE_URL'' []) \<noteq> [])"
  "k \<noteq> ''_OPENCODE_KEY'' \<Longrightarrow> k \<noteq> ''_OLLAMA_URL''
     \<Longrightarrow> env_truthy (resolved_env env) k = env_truthy env k"
  by (auto simp: resolved_env_def env_truthy_def opencode_key_def ollama_url_def
      split: option.splits)

lemma groq_first:
  assumes "env_truthy env ''GROQ_API_KEY''"
    and "list_all (\<lambda>k. \<not> env_truthy env k)
           [''ANTHROPIC_API_KEY'', ''OPENAI_API_KEY'', ''OPENROUTER_API_KEY'', ''GEMINI_API_KEY'',
            ''OPENCODE_API_KEY'', ''OPENCODE_ZEN_API_KEY'', ''COPILOT_GITHUB_TOKEN'',
            ''XAI_API_KEY'']"
  shows "first_model (resolved_env env) PRIMARY_MODEL_PRIORITY
           = Some ''groq/llama-3.3-70b-versatile''"
  using assms by (simp add: PRIMARY_MODEL_PRIORITY_def resolved_env_signals)

text \<open>
  Claim C3. On a document whose \<open>agents.defaults.model\<close> node is a mapping \<open>m\<close> (section
  3 has ensured it): a non-empty \<open>OPENCLAW_PRIMARY_MODEL\<close> becomes the primary model;
  otherwise a truthy primary value that the document carries is kept and the document
  is unchanged; otherwise the priority list is walked in its order and the model of the
  first entry whose signal is truthy is stored, the document staying unchanged when
  there is none. The first match is the entry all of whose predecessors have a falsy
  signal; the opencode signal is truthy when one of its two variables is, the Ollama
  signal when the URL is not empty after stripping slashes, and every other signal is
  the variable itself. With \<open>GROQ_API_KEY\<close> truthy, the signals before it falsy, no
  override and no truthy primary carried, the primary model is
  \<open>groq/llama-3.3-70b-versatile\<close>.
\<close>

theorem primary_model_precedence:
  assumes "getitems config [''agents'', ''defaults'', ''model''] = Inr (JDict m)"
  shows
    "(env ''OPENCLAW_PRIMARY_MODEL'' = Some v \<and> v \<noteq> [] \<longrightarrow>
        (\<exists>c. select_primary_model rt env config = Inr c
           \<and> get_in c [''agents'', ''defaults'', ''model''] ''primary'' = Inr (JStr v)))
     \<and> (\<not> env_truthy env ''OPENCLAW_PRIMARY_MODEL'' \<and> map_of m ''primary'' = Some p
          \<and> truthy rt p \<longrightarrow>
        select_primary_model rt env config = Inr config)
     \<and> (\<not> env_truthy env ''OPENCLAW_PRIMARY_MODEL''
          \<and> \<not> truthy rt (case map_of m ''primary'' of None \<Rightarrow> JNull | Some x \<Rightarrow> x) \<longrightarrow>
        (case first_model (resolved_env env) PRIMARY_MODEL_PRIORITY of
           None \<Rightarrow> select_primary_model rt env config = Inr config
         | Some model \<Rightarrow>
             (\<exists>c. select_primary_model rt env config = Inr c
                \<and> get_in c [''agents'', ''defaults'', ''model''] ''primary''
                    = Inr (JStr model))))
     \<and> (first_model (resolved_env env) PRIMARY_MODEL_PRIORITY = Some model \<longleftrightarrow>
          (\<exists>pre k post. PRIMARY_MODEL_PRIORITY = pre @ (k, model) # post
             \<and> env_truthy (resolved_env env) k
             \<and> list_all (\<lambda>e. \<not> env_truthy (resolved_env env) (fst e)) pre))
     \<and> env_truthy (resolved_env env) ''_OPENCODE_KEY''
         = (env_truthy env ''OPENCODE_API_KEY'' \<or> env_truthy env ''OPENCODE_ZEN_API_KEY'')
     \<and> env_truthy (resolved_env env) ''_OLLAMA_URL''
         = (rstrip_chars ''/'' (env_get_or env ''OLLAMA_BASE_URL'' []) \<noteq> [])
     \<and> (k \<noteq> ''_OPENCODE_KEY'' \<and> k \<noteq> ''_OLLAMA_URL'' \<longrightarrow>
          env_truthy (resolved_env env) k = env_truthy env k)
     \<and> (env_truthy env ''GROQ_API_KEY''
          \<and> list_all (\<lambda>k. \<not> env_truthy env k)
               [''ANTHROPIC_API_KEY'', ''OPENAI_API_KEY'', ''OPENROUTER_API_KEY'',
                ''GEMINI_API_KEY'', ''OPENCODE_API_KEY'', ''OPENCODE_ZEN_API_KEY'',
                ''COPILOT_GITHUB_TOKEN'', ''XAI_API_KEY'']
          \<and> \<not> env_truthy env ''OPENCLAW_PRIMARY_MODEL''
          \<and> \<not> truthy rt (case map_of m ''primary'' of None \<Rightarrow> JNull | Some x \<Rightarrow> x) \<longrightarrow>
          (\<exists>c. select_primary_model rt env config = Inr c
             \<and> get_in c [''agents'', ''defaults'', ''model''] ''primary''
                 = Inr (JStr ''groq/llama-3.3-70b-versatile'')))"
proof -
  have carried: "get_in config [''agents'', ''defaults'', ''model''] ''primary''
      = Inr (case map_of m ''primary'' of None \<Rightarrow> JNull | Some x \<Rightarrow> x)"
    using assms by (simp add: get_in_def split: option.splits)
  have store: "\<exists>c. setitems config primary_path (JStr x) = Inr c
      \<and> get_in c [''agents'', ''defaults'', ''model''] ''primary'' = Inr (JStr x)" for x
    using setitems_then_get_in[OF assms, of "''primary''" "JStr x"]
    by (simp add: primary_path_def)
  have override: "env ''OPENCLAW_PRIMARY_MODEL'' = Some v \<and> v \<noteq> [] \<longrightarrow>
        (\<exists>c. select_primary_model rt env config = Inr c
           \<and> get_in c [''agents'', ''defaults'', ''model''] ''primary'' = Inr (JStr v))"
    using store[of v] by (simp add: select_primary_model_def env_truthy_def environ_item_def)
  have kept: "\<not> env_truthy env ''OPENCLAW_PRIMARY_MODEL'' \<and> map_of m ''primary'' = Some p
          \<and> truthy rt p \<longrightarrow> select_primary_model rt env config = Inr config"
    by (simp add: select_primary_model_def carried)
  have auto_select: "\<not> env_truthy env ''OPENCLAW_PRIMARY_MODEL''
          \<and> \<not> truthy rt (case map_of m ''primary'' of None \<Rightarrow> JNull | Some x \<Rightarrow> x) \<longrightarrow>
        (case first_model (resolved_env env) PRIMARY_MODEL_PRIORITY of
           None \<Rightarrow> select_primary_model rt env config = Inr config
         | Some model \<Rightarrow>
             (\<exists>c. select_primary_model rt env config = Inr c
                \<and> get_in c [''agents'', ''defaults'', ''model''] ''primary''
                    = Inr (JStr model)))"
    using store by (simp add: select_primary_model_def carried split: option.splits)
  have groq: "env_truthy env ''GROQ_API_KEY''
          \<and> list_all (\<lambda>k. \<not> env_truthy env k)
               [''ANTHROPIC_API_KEY'', ''OPENAI_API_KEY'', ''OPENROUTER_API_KEY'',
                ''GEMINI_API_KEY'', ''OPENCODE_API_KEY'', ''OPENCODE_ZEN_API_KEY'',
                ''COPILOT_GITHUB_TOKEN'', ''XAI_API_KEY'']
          \<and> \<not> env_truthy env ''OPENCLAW_PRIMARY_MODEL''
          \<and> \<not> truthy rt (case map_of m ''primary'' of None \<Rightarrow> JNull | Some x \<Rightarrow> x) \<longrightarrow>
          (\<exists>c. select_primary_model rt env config = Inr c
             \<and> get_in c [''agents'', ''defaults'', ''model''] ''primary''
                 = Inr (JStr ''groq/llama-3.3-70b-versatile''))"
  proof (intro impI, elim conjE)
    assume g: "env_truthy env ''GROQ_API_KEY''"
      and before: "list_all (\<lambda>k. \<not> env_truthy env k)
               [''ANTHROPIC_API_KEY'', ''OPENAI_API_KEY'', ''OPENROUTER_API_KEY'',
                ''GEMINI_API_KEY'', ''OPENCODE_API_KEY'', ''OPENCODE_ZEN_API_KEY'',
                ''COPILOT_GITHUB_TOKEN'', ''XAI_API_KEY'']"
      and no: "\<not> env_truthy env ''OPENCLAW_PRIMARY_MODEL''"
        "\<not> truthy rt (case map_of m ''primary'' of None \<Rightarrow> JNull | Some x \<Rightarrow> x)"
    from auto_select no groq_first[OF g before]
    show "\<exists>c. select_primary_model rt env config = Inr c
             \<and> get_in c [''agents'', ''defaults'', ''model''] ''primary''
                 = Inr (JStr ''groq/llama-3.3-70b-versatile'')"
      by simp
  qed
  note signals = resolved_env_signals[where env=env]
  show ?thesis
    by (intro conjI override kept auto_select groq first_model_Some_iff signals(1,2))
       (simp add: signals(3))
qed

theorem primary_model_precedence_witness:
  "getitems (JDict [(''agents'', JDict [(''defaults'', JDict [(''model'', JDict [])])])])
     [''agents'', ''defaults'', ''model''] = Inr (JDict [])
   \<and> (\<exists>c. select_primary_model example_runtime (map_of [(''GROQ_API_KEY'', ''gsk'')])
             (JDict [(''agents'', JDict [(''defaults'', JDict [(''model'', JDict [])])])])
           = Inr c
         \<and> get_in c [''agents'', ''defaults'', ''model''] ''primary''
             = Inr (JStr ''groq/llama-3.3-70b-versatile''))
   \<and> and_then (resolve example_runtime [(''GROQ_API_KEY'', ''gsk'')] None None)
        (\<lambda>doc. Inr (get_nested doc ''agents.defaults.model.primary'' JNull))
       = Inr (JStr ''groq/llama-3.3-70b-versatile'')"
proof -
  have h: "getitems (JDict [(''agents'', JDict [(''defaults'', JDict [(''model'', JDict [])])])])
     [''agents'', ''defaults'', ''model''] = Inr (JDict [])"
    by simp
  have run: "and_then (resolve example_runtime [(''GROQ_API_KEY'', ''gsk'')] None None)
        (\<lambda>doc. Inr (get_nested doc ''agents.defaults.model.primary'' JNull))
       = Inr (JStr ''groq/llama-3.3-70b-versatile'')"
    by (simp add: engine_defs table_defs example_defs cong: and_then_weak_cong)
  from primary_model_precedence[OF h, of "map_of [(''GROQ_API_KEY'', ''gsk'')]" _ example_runtime]
  have "\<exists>c. select_primary_model example_runtime (map_of [(''GROQ_API_KEY'', ''gsk'')])
             (JDict [(''agents'', JDict [(''defaults'', JDict [(''model'', JDict [])])])])
           = Inr c
         \<and> get_in c [''agents'', ''defaults'', ''model''] ''primary''
             = Inr (JStr ''groq/llama-3.3-70b-versatile'')"
    by (simp add: env_truthy_def)
  with h run show ?thesis by blast
qed

subsection \<open>What each section leaves alone\<close>

text \<open>
  Rules to follow an observation through a section: a step that threads the document,
  a step that only computes a value, a branch.
\<close>

lemma keeps_Inr: "keeps obs c (Inr c)"
  by (simp add: keeps_def)

lemma keeps_Inl: "keeps obs c (Inl e)"
  by (simp add: keeps_def)

lemma keeps_step:
  "keeps obs c m \<Longrightarrow> (\<And>c1. keeps obs c1 (f c1)) \<Longrightarrow> keeps obs c (and_then m f)"
proof (cases m)
  case (Inr b)
  assume "keeps obs c m" and f: "\<And>c1. keeps obs c1 (f c1)"
  with Inr have "obs b = obs c" by (simp add: keeps_def)
  with f[of b] Inr show ?thesis by (cases "f b") (simp_all add: keeps_def)
qed (simp add: keeps_def)

lemma keeps_read: "(\<And>x. keeps obs c (f x)) \<Longrightarrow> keeps obs c (and_then m f)"
  by (cases m) (auto simp: keeps_def)

lemma keeps_if:
  "(b \<Longrightarrow> keeps obs c x) \<Longrightarrow> (\<not> b \<Longrightarrow> keeps obs c y) \<Longrightarrow> keeps obs c (if b then x else y)"
  by simp

lemma keeps_case_option:
  "(opt = None \<Longrightarrow> keeps obs c x) \<Longrightarrow> (\<And>y. opt = Some y \<Longrightarrow> keeps obs c (f y))
     \<Longrightarrow> keeps obs c (case opt of None \<Rightarrow> x | Some y \<Rightarrow> f y)"
  by (cases opt) auto

lemma keepsD: "keeps obs c r \<Longrightarrow> r = Inr c' \<Longrightarrow> obs c' = obs c"
  by (simp add: keeps_def)

lemmas keeps_reads =
  keeps_read[where m = "get_in a b c" for a b c]
  keeps_read[where m = "getitems a b" for a b]
  keeps_read[where m = "getitem a b" for a b]
  keeps_read[where m = "dict_get a b" for a b]
  keeps_read[where m = "environ_item a b" for a b]
  keeps_read[where m = "apply_fields a b c d" for a b c d]
  keeps_read[where m = "setdefault a b c" for a b c]
  keeps_read[where m = "set_tokens a b c" for a b c]
  keeps_read[where m = "setitem a b c" for a b c]
  keeps_read[where m = "parse_value a b c" for a b c]

lemma entry_at_JDict [simp]: "entry_at (JDict d) k = map_of d k"
  by (simp add: entry_at_def)

lemma setitem_entry:
  "setitem c k v = Inr c' \<Longrightarrow> entry_at c' k' = (if k' = k then Some v else entry_at c k')"
  by (cases c) (auto simp: update_conv')

lemma ensure_entry:
  "ensure c (k # ks) = Inr c' \<Longrightarrow> k' \<noteq> k \<Longrightarrow> entry_at c' k' = entry_at c k'"
  by (cases c) (auto simp: and_then_Inr_iff update_conv')

lemma setitems_entry:
  "setitems c (k # ks) v = Inr c' \<Longrightarrow> k' \<noteq> k \<Longrightarrow> entry_at c' k' = entry_at c k'"
  by (cases c; cases ks) (auto simp: and_then_Inr_iff update_conv' split: option.splits)

lemma del_path_entry:
  "k' \<noteq> k \<Longrightarrow> entry_at (del_path c (k # ks) n) k' = entry_at c k'"
  by (cases c) (auto simp: update_conv' split: option.splits)

lemma del_path_top_entry:
  "k' \<noteq> n \<Longrightarrow> entry_at (del_path c [] n) k' = entry_at c k'"
  by (cases c) (auto simp: delete_conv')

lemma remove_provider_entry:
  "k' \<noteq> ''models'' \<Longrightarrow> entry_at (remove_provider c h n) k' = entry_at c k'"
  by (simp add: remove_provider_def get_nested_def del_path_entry split: json.splits)

lemma set_nested_keys_entry:
  "set_nested_keys c (k # ks) v = Inr c' \<Longrightarrow> k' \<noteq> k \<Longrightarrow> entry_at c' k' = entry_at c k'"
  by (cases c; cases ks) (auto simp: and_then_Inr_iff update_conv' split: option.splits)

text \<open>The primitive steps keep every entry but the one at the head of their path.\<close>

lemma keeps_ensure: "k' \<noteq> k \<Longrightarrow> keeps (\<lambda>c. entry_at c k') c (ensure c (k # ks))"
  by (auto simp: keeps_def ensure_entry split: sum.splits)

lemma keeps_setitems: "k' \<noteq> k \<Longrightarrow> keeps (\<lambda>c. entry_at c k') c (setitems c (k # ks) v)"
  by (auto simp: keeps_def setitems_entry split: sum.splits)

lemma keeps_setitem: "k' \<noteq> k \<Longrightarrow> keeps (\<lambda>c. entry_at c k') c (setitem c k v)"
  by (auto simp: keeps_def setitem_entry split: sum.splits)

lemma keeps_del_path:
  "k' \<noteq> k \<Longrightarrow> keeps (\<lambda>c. entry_at c k') c (Inr (del_path c (k # ks) n))"
  by (simp add: keeps_def del_path_entry)

lemma keeps_del_top:
  "k' \<noteq> n \<Longrightarrow> keeps (\<lambda>c. entry_at c k') c (Inr (del_path c [] n))"
  by (simp add: keeps_def del_path_top_entry)

lemma keeps_remove_provider:
  "k' \<noteq> ''models'' \<Longrightarrow> keeps (\<lambda>c. entry_at c k') c (Inr (remove_provider c h n))"
  by (simp add: keeps_def remove_provider_entry)

lemmas keeps_entry_steps =
  keeps_ensure keeps_setitems keeps_setitem keeps_del_path keeps_del_top keeps_remove_provider

lemmas keeps_rules = keeps_reads keeps_step keeps_if keeps_case_option keeps_Inr keeps_Inl

lemma configure_gateway_keeps:
  "k \<noteq> ''gateway'' \<Longrightarrow> keeps (\<lambda>c. entry_at c k) c (configure_gateway rt env c)"
  unfolding configure_gateway_def Let_def
  by (rule keeps_rules keeps_entry_steps | assumption)+

lemma configure_agents_keeps:
  "k \<noteq> ''agents'' \<Longrightarrow> keeps (\<lambda>c. entry_at c k) c (configure_agents rt env c)"
  unfolding configure_agents_def Let_def
  by (rule keeps_rules keeps_entry_steps | assumption)+

lemma configure_custom_providers_keeps:
  "k \<noteq> ''models'' \<Longrightarrow> keeps (\<lambda>c. entry_at c k) c (configure_custom_providers env h c provs)"
proof (induction provs arbitrary: c)
  case Nil
  show ?case by (simp add: keeps_Inr)
next
  case (Cons prov provs)
  show ?case
    unfolding configure_custom_providers.simps Let_def
    by (rule keeps_rules keeps_entry_steps Cons | assumption)+
qed

lemma configure_bedrock_keeps:
  "k \<noteq> ''models'' \<Longrightarrow> keeps (\<lambda>c. entry_at c k) c (configure_bedrock env h c)"
  unfolding configure_bedrock_def Let_def
  by ((rule keeps_rules keeps_entry_steps | assumption)+)
     (simp_all add: keeps_def del_path_entry remove_provider_entry)

lemma configure_ollama_keeps:
  "k \<noteq> ''models'' \<Longrightarrow> keeps (\<lambda>c. entry_at c k) c (configure_ollama env h c)"
  unfolding configure_ollama_def Let_def
  by (rule keeps_rules keeps_entry_steps | assumption)+

lemma clean_builtin_entry:
  "k \<noteq> ''models'' \<Longrightarrow> entry_at (clean_builtin h c l) k = entry_at c k"
  by (induction l arbitrary: c) (auto simp: remove_provider_entry)

lemma clean_builtin_providers_entry:
  "k \<noteq> ''models'' \<Longrightarrow> entry_at (clean_builtin_providers h c) k = entry_at c k"
  by (simp add: clean_builtin_providers_def clean_builtin_entry remove_provider_entry)

lemma select_primary_model_keeps:
  "k \<noteq> ''agents'' \<Longrightarrow> keeps (\<lambda>c. entry_at c k) c (select_primary_model rt env c)"
  unfolding select_primary_model_def primary_path_def Let_def
  by (rule keeps_rules keeps_entry_steps | assumption)+

lemma configure_deepgram_keeps:
  "k \<noteq> ''tools'' \<Longrightarrow> keeps (\<lambda>c. entry_at c k) c (configure_deepgram env c)"
  unfolding configure_deepgram_def Let_def
  by (rule keeps_rules keeps_entry_steps | assumption)+

lemma configure_channel_keeps:
  "k \<noteq> ''channels'' \<Longrightarrow> keeps (\<lambda>c. entry_at c k) c (configure_channel rt env c ch)"
  unfolding configure_channel_def Let_def
  apply (rule keeps_if)
   apply (rule keeps_step)
    apply (rule keeps_ensure, assumption)
   apply (rule keeps_read)+
   apply (rule keeps_setitems, assumption)
  apply (rule keeps_Inr)
  done

lemma configure_channels_keeps:
  "k \<noteq> ''channels'' \<Longrightarrow> keeps (\<lambda>c. entry_at c k) c (configure_channels rt env c chs)"
proof (induction chs arbitrary: c)
  case Nil
  show ?case by (simp add: keeps_Inr)
next
  case (Cons ch chs)
  show ?case
    unfolding configure_channels.simps
    by (rule keeps_step configure_channel_keeps Cons)+
qed

lemma cleanup_channels_keeps:
  "k \<noteq> ''channels'' \<Longrightarrow> keeps (\<lambda>c. entry_at c k) c (cleanup_channels c)"
  unfolding cleanup_channels_def
  by (rule keeps_read) (auto simp: keeps_def del_path_top_entry split: json.splits list.splits)

lemma configure_browser_keeps:
  "k \<noteq> ''browser'' \<Longrightarrow> keeps (\<lambda>c. entry_at c k) c (configure_browser rt env c)"
  unfolding configure_browser_def Let_def
  by (rule keeps_rules keeps_entry_steps | assumption)+

lemma configure_hooks_keeps:
  "k \<noteq> ''hooks'' \<Longrightarrow> keeps (\<lambda>c. entry_at c k) c (configure_hooks rt env c)"
  unfolding configure_hooks_def Let_def
  by (rule keeps_rules keeps_entry_steps | assumption)+

subsection \<open>No section exits\<close>

lemma no_exit_Inr: "no_exit (Inr x)"
  by (simp add: no_exit_def)

lemma no_exit_and_then: "no_exit m \<Longrightarrow> (\<And>x. no_exit (f x)) \<Longrightarrow> no_exit (and_then m f)"
  by (cases m) (auto simp: no_exit_def)

lemma no_exit_if: "(b \<Longrightarrow> no_exit x) \<Longrightarrow> (\<not> b \<Longrightarrow> no_exit y) \<Longrightarrow> no_exit (if b then x else y)"
  by simp

lemma no_exit_case_option:
  "(opt = None \<Longrightarrow> no_exit x) \<Longrightarrow> (\<And>y. opt = Some y \<Longrightarrow> no_exit (f y))
     \<Longrightarrow> no_exit (case opt of None \<Rightarrow> x | Some y \<Rightarrow> f y)"
  by (cases opt) auto

lemma no_exit_exception:
  "no_exit (Inl AttributeError)" "no_exit (Inl TypeError)" "no_exit (Inl ValueError)"
  "no_exit (Inl KeyError)"
  by (simp_all add: no_exit_def)

lemma no_exit_getitem: "no_exit (getitem c k)"
  by (cases c) (auto simp: no_exit_def split: option.splits)

lemma no_exit_dict_get: "no_exit (dict_get c k)"
  by (cases c) (auto simp: no_exit_def split: option.splits)

lemma no_exit_setitem: "no_exit (setitem c k v)"
  by (cases c) (auto simp: no_exit_def)

lemma no_exit_setdefault: "no_exit (setdefault c k v)"
  by (cases c) (auto simp: no_exit_def split: option.splits)

lemma no_exit_getitems: "no_exit (getitems c ks)"
  by (induction ks arbitrary: c) (auto intro!: no_exit_and_then no_exit_getitem no_exit_Inr)

lemma no_exit_setitems: "no_exit (setitems c ks v)"
  by (induction c ks v rule: setitems.induct)
     (auto intro!: no_exit_and_then no_exit_getitem no_exit_setitem no_exit_Inr)

lemma no_exit_ensure: "no_exit (ensure c ks)"
  by (induction ks arbitrary: c)
     (auto intro!: no_exit_and_then no_exit_Inr no_exit_exception split: json.splits)

lemma no_exit_get_in: "no_exit (get_in c p k)"
  unfolding get_in_def by (intro no_exit_and_then no_exit_getitems no_exit_dict_get)

lemma no_exit_environ_item: "no_exit (environ_item env k)"
  by (simp add: environ_item_def no_exit_def split: option.splits)

lemma no_exit_set_nested_keys: "no_exit (set_nested_keys c ks v)"
  by (induction c ks v rule: set_nested_keys.induct)
     (auto intro!: no_exit_and_then no_exit_setitem no_exit_Inr no_exit_exception
           split: json.splits option.splits)

lemma no_exit_set_nested: "no_exit (set_nested c p v)"
  by (simp add: set_nested_def no_exit_set_nested_keys)

lemma no_exit_parse_value: "no_exit (parse_value rt raw h)"
  by (simp add: parse_value_def no_exit_def split: option.splits)

lemma no_exit_apply_fields: "no_exit (apply_fields rt env c fs)"
  by (induction fs arbitrary: c)
     (auto intro!: no_exit_and_then no_exit_Inr no_exit_parse_value no_exit_set_nested
           split: option.splits)

lemma no_exit_deep_merge: "no_exit (deep_merge t s)"
  by (induction t s rule: deep_merge.induct)
     (auto intro!: no_exit_and_then no_exit_Inr no_exit_exception
           split: json.splits option.splits)

lemmas no_exit_rules =
  no_exit_and_then no_exit_if no_exit_case_option no_exit_Inr no_exit_exception
  no_exit_getitem no_exit_dict_get no_exit_setitem no_exit_setdefault no_exit_getitems
  no_exit_setitems no_exit_ensure no_exit_get_in no_exit_environ_item no_exit_set_nested
  no_exit_parse_value no_exit_apply_fields no_exit_deep_merge

lemma no_exit_load_config: "no_exit (load_config custom persisted)"
  unfolding load_config_def Let_def by (intro no_exit_rules)

lemma no_exit_configure_gateway: "no_exit (configure_gateway rt env c)"
  unfolding configure_gateway_def Let_def by (intro no_exit_rules)

lemma no_exit_configure_agents: "no_exit (configure_agents rt env c)"
  unfolding configure_agents_def Let_def by (intro no_exit_rules)

lemma no_exit_configure_custom_providers: "no_exit (configure_custom_providers env h c provs)"
proof (induction provs arbitrary: c)
  case Nil
  show ?case by (simp add: no_exit_Inr)
next
  case (Cons prov provs)
  show ?case
    unfolding configure_custom_providers.simps Let_def by (intro no_exit_rules Cons)
qed

lemma no_exit_configure_bedrock: "no_exit (configure_bedrock env h c)"
  unfolding configure_bedrock_def Let_def by (intro no_exit_rules)

lemma no_exit_configure_ollama: "no_exit (configure_ollama env h c)"
  unfolding configure_ollama_def Let_def by (intro no_exit_rules)

lemma no_exit_select_primary_model: "no_exit (select_primary_model rt env c)"
  unfolding select_primary_model_def Let_def by (intro no_exit_rules)

lemma no_exit_configure_deepgram: "no_exit (configure_deepgram env c)"
  unfolding configure_deepgram_def Let_def by (intro no_exit_rules)

lemma no_exit_set_token_list: "no_exit (set_token_list env c l)"
  by (induction l arbitrary: c) (auto intro!: no_exit_rules)

lemma no_exit_set_tokens: "no_exit (set_tokens env ch c)"
  unfolding set_tokens_def
  by (auto intro!: no_exit_rules no_exit_set_token_list
           split: option.splits token_spec.splits gate_spec.splits)

lemma no_exit_configure_channel: "no_exit (configure_channel rt env c ch)"
  unfolding configure_channel_def Let_def by (intro no_exit_rules no_exit_set_tokens)

lemma no_exit_configure_channels: "no_exit (configure_channels rt env c chs)"
  by (induction chs arbitrary: c) (auto intro!: no_exit_rules no_exit_configure_channel)

lemma no_exit_cleanup_channels: "no_exit (cleanup_channels c)"
  unfolding cleanup_channels_def
  by (auto intro!: no_exit_rules split: json.splits list.splits)

lemma no_exit_configure_browser: "no_exit (configure_browser rt env c)"
  unfolding configure_browser_def Let_def by (intro no_exit_rules)

lemma no_exit_configure_hooks: "no_exit (configure_hooks rt env c)"
  unfolding configure_hooks_def Let_def by (intro no_exit_rules)

lemma no_exit_apply_overrides: "no_exit (apply_overrides rt c items)"
  by (induction items arbitrary: c) (auto intro!: no_exit_rules)

lemma no_exit_build_config: "no_exit (build_config rt items custom persisted)"
  unfolding build_config_def schema_stages_def apply_convention_overrides_def
  by (intro no_exit_and_then no_exit_load_config no_exit_configure_gateway
      no_exit_configure_agents no_exit_configure_custom_providers no_exit_configure_bedrock
      no_exit_configure_ollama no_exit_select_primary_model no_exit_configure_deepgram
      no_exit_configure_channels no_exit_cleanup_channels no_exit_configure_browser
      no_exit_configure_hooks no_exit_apply_overrides)

subsection \<open>The validation\<close>

lemma has_provider_signals:
  "has_provider env \<longleftrightarrow>
     list_ex (env_truthy env)
       [''ANTHROPIC_API_KEY'', ''OPENAI_API_KEY'', ''OPENROUTER_API_KEY'', ''GEMINI_API_KEY'',
        ''XAI_API_KEY'', ''GROQ_API_KEY'', ''MISTRAL_API_KEY'', ''CEREBRAS_API_KEY'',
        ''ZAI_API_KEY'', ''AI_GATEWAY_API_KEY'', ''COPILOT_GITHUB_TOKEN'',
        ''OPENCODE_API_KEY'', ''OPENCODE_ZEN_API_KEY'',
        ''VENICE_API_KEY'', ''MINIMAX_API_KEY'', ''MOONSHOT_API_KEY'', ''KIMI_API_KEY'',
        ''SYNTHETIC_API_KEY'', ''XIAOMI_API_KEY'']
     \<or> (env_truthy env ''AWS_ACCESS_KEY_ID'' \<and> env_truthy env ''AWS_SECRET_ACCESS_KEY'')
     \<or> rstrip_chars ''/'' (env_get_or env ''OLLAMA_BASE_URL'' []) \<noteq> []"
proof -
  have "(case opencode_key env of None \<Rightarrow> False | Some v \<Rightarrow> v \<noteq> [])
      = (env_truthy env ''OPENCODE_API_KEY'' \<or> env_truthy env ''OPENCODE_ZEN_API_KEY'')"
    by (auto simp: opencode_key_def env_truthy_def split: option.splits)
  then show ?thesis
    unfolding has_provider_def
    by (simp add: BUILTIN_PROVIDERS_def CUSTOM_PROVIDERS_def aws_credentials_def ollama_url_def)
       blast
qed

lemma resolve_exit_iff:
  "resolve rt items custom persisted = Inl (SystemExit code msg) \<longleftrightarrow>
     (\<exists>config. build_config rt items custom persisted = Inr config)
     \<and> \<not> has_provider (map_of items) \<and> code = 1 \<and> msg = no_provider_message"
proof (cases "build_config rt items custom persisted")
  case (Inl e)
  with no_exit_build_config[of rt items custom persisted] have "\<not> is_exit e"
    by (simp add: no_exit_def)
  with Inl show ?thesis by (auto simp: resolve_def)
next
  case (Inr config)
  then show ?thesis by (auto simp: resolve_def validate_def)
qed

lemma ollama_only_run:
  assumes "rstrip_chars ''/'' u \<noteq> []"
  shows "exit_error (main rt [(''OLLAMA_BASE_URL'', u)] None None h) = None
       \<and> config_file (main rt [(''OLLAMA_BASE_URL'', u)] None None h) \<noteq> None"
  using assms
  by (simp add: engine_defs table_defs cong: and_then_weak_cong)

text \<open>
  Claim C8, amended. Sections 1 to 13 never exit; they can only raise. So the run ends
  in \<open>sys.exit\<close> exactly when those sections complete and no credential signal is
  truthy, and then the code is 1 and the diagnostic is the seven lines of
  \<open>no_provider_message\<close>. The signals are the eleven built-in keys, the two opencode
  keys, the six custom-provider keys, both AWS credentials together, and
  \<open>OLLAMA_BASE_URL\<close> after its trailing slashes are stripped. A run whose only
  variable is an \<open>OLLAMA_BASE_URL\<close> that is not empty after the stripping, with no
  document loaded, writes the document and ends with exit code 0.
\<close>

theorem validator_exit:
  "(resolve rt items custom persisted = Inl (SystemExit code msg) \<longleftrightarrow>
      (\<exists>config. build_config rt items custom persisted = Inr config)
      \<and> \<not> has_provider (map_of items) \<and> code = 1 \<and> msg = no_provider_message)
   \<and> (has_provider env \<longleftrightarrow>
        list_ex (env_truthy env)
          [''ANTHROPIC_API_KEY'', ''OPENAI_API_KEY'', ''OPENROUTER_API_KEY'', ''GEMINI_API_KEY'',
           ''XAI_API_KEY'', ''GROQ_API_KEY'', ''MISTRAL_API_KEY'', ''CEREBRAS_API_KEY'',
           ''ZAI_API_KEY'', ''AI_GATEWAY_API_KEY'', ''COPILOT_GITHUB_TOKEN'',
           ''OPENCODE_API_KEY'', ''OPENCODE_ZEN_API_KEY'',
           ''VENICE_API_KEY'', ''MINIMAX_API_KEY'', ''MOONSHOT_API_KEY'', ''KIMI_API_KEY'',
           ''SYNTHETIC_API_KEY'', ''XIAOMI_API_KEY'']
        \<or> (env_truthy env ''AWS_ACCESS_KEY_ID'' \<and> env_truthy env ''AWS_SECRET_ACCESS_KEY'')
        \<or> rstrip_chars ''/'' (env_get_or env ''OLLAMA_BASE_URL'' []) \<noteq> [])
   \<and> (rstrip_chars ''/'' u \<noteq> [] \<longrightarrow>
        exit_error (main rt [(''OLLAMA_BASE_URL'', u)] None None h) = None
        \<and> config_file (main rt [(''OLLAMA_BASE_URL'', u)] None None h) \<noteq> None)"
  using resolve_exit_iff[of rt items custom persisted code msg] has_provider_signals[of env]
    ollama_only_run[of u rt h]
  by blast

theorem validator_exit_witness:
  "rstrip_chars ''/'' ''http://ollama:11434/'' \<noteq> []
   \<and> exit_error (main example_runtime [(''OLLAMA_BASE_URL'', ''http://ollama:11434/'')]
                   None None (0, [])) = None
   \<and> build_config example_runtime [] None None
       = Inr (JDict
           [(''gateway'', JDict [(''port'', JInt 18789), (''mode'', JStr ''local''),
               (''controlUi'', JDict [(''allowInsecureAuth'', JBool True),
                                      (''enabled'', JBool True)])]),
            (''agents'', JDict [(''defaults'',
               JDict [(''workspace'', JStr ''/data/workspace''), (''model'', JDict [])])])])
   \<and> \<not> has_provider (map_of [])
   \<and> resolve example_runtime [] None None = Inl (SystemExit 1 no_provider_message)"
proof -
  have u: "rstrip_chars ''/'' ''http://ollama:11434/'' \<noteq> []"
    by (simp add: rstrip_chars_def)
  have b: "build_config example_runtime [] None None
       = Inr (JDict
           [(''gateway'', JDict [(''port'', JInt 18789), (''mode'', JStr ''local''),
               (''controlUi'', JDict [(''allowInsecureAuth'', JBool True),
                                      (''enabled'', JBool True)])]),
            (''agents'', JDict [(''defaults'',
               JDict [(''workspace'', JStr ''/data/workspace''), (''model'', JDict [])])])])"
    by (simp add: engine_defs table_defs example_defs cong: and_then_weak_cong)
  have p: "\<not> has_provider (map_of [])"
    by (simp add: engine_defs table_defs)
  note t = validator_exit[of example_runtime "[]" None None 1 no_provider_message
      Map.empty "''http://ollama:11434/''" "(0, [])"]
  from t u have "exit_error (main example_runtime [(''OLLAMA_BASE_URL'', ''http://ollama:11434/'')]
                   None None (0, [])) = None"
    by blast
  moreover from t b p have "resolve example_runtime [] None None
      = Inl (SystemExit 1 no_provider_message)"
    by simp
  ultimately show ?thesis using u b p by blast
qed

text \<open>
  Claim C8 as stated fails in three ways. With a credential present, a malformed
  \<open>OPENCLAW_GATEWAY_PORT\<close> ends the run with \<open>ValueError\<close>, a non-zero exit that is not
  the validator's. With no credential present, the same variable ends the run before
  the validator, so no diagnostic is printed. And with exactly \<open>OLLAMA_BASE_URL\<close> set,
  to \<open>/\<close>, the run exits with code 1: the URL is empty once its slashes are stripped.
\<close>

theorem validator_exit_counterexample:
  "has_provider (map_of [(''ANTHROPIC_API_KEY'', ''k''), (''OPENCLAW_GATEWAY_PORT'', ''abc'')])
   \<and> exit_error (main example_runtime
         [(''ANTHROPIC_API_KEY'', ''k''), (''OPENCLAW_GATEWAY_PORT'', ''abc'')]
         None None (0, [])) = Some ValueError
   \<and> \<not> has_provider (map_of [(''OPENCLAW_GATEWAY_PORT'', ''abc'')])
   \<and> exit_error (main example_runtime [(''OPENCLAW_GATEWAY_PORT'', ''abc'')]
         None None (0, [])) = Some ValueError
   \<and> exit_error (main example_runtime [(''OLLAMA_BASE_URL'', ''/'')] None None (0, []))
       = Some (SystemExit 1 no_provider_message)"
  by (simp add: engine_defs table_defs example_defs cong: and_then_weak_cong)

subsection \<open>Convention overrides\<close>

lemma is_prefix_Nil [simp]: "is_prefix [] ys"
  by (simp add: is_prefix_def)

lemma is_prefix_Cons [simp]: "is_prefix (x # xs) (y # ys) \<longleftrightarrow> x = y \<and> is_prefix xs ys"
  by (auto simp: is_prefix_def)











subsection \<open>Determinism\<close>

lemma sort_items_unique:
  assumes "distinct (map fst items)" and "distinct (map fst items')" and "set items = set items'"
  shows "sort items = sort items'"
proof (rule sorted_distinct_set_unique)
  show "distinct (sort items)" "distinct (sort items')"
    using assms(1,2) by (simp_all add: distinct_map)
  show "set (sort items) = set (sort items')"
    using assms(3) by simp
qed simp_all

lemma sorted_names: "sorted (map fst (sort (items :: (string \<times> string) list)))"
proof -
  have "sorted_wrt (\<le>) (sort items)" using sorted_sort[of items] by simp
  then have "sorted_wrt (\<lambda>x y. fst x \<le> fst y) (sort items)"
    by (rule sorted_wrt_mono_rel[rotated]) (auto simp: less_eq_prod_def)
  then show ?thesis by (simp add: sorted_map)
qed

lemma auth_content_no_password:
  "\<not> env_truthy env ''AUTH_PASSWORD'' \<Longrightarrow> auth_content env h = auth_content env h'"
  by (auto simp: auth_content_def env_truthy_def env_get_or_def split: option.splits)

text \<open>
  Claim C9, amended. Two runs on the same environment (the same names with the same
  values, in whatever order \<open>os.environ\<close> lists them), the same two documents and the
  same answer of \<open>caddy hash-password\<close> leave the same three files and end the same
  way; the overrides are applied in the order of their names. The answer of the hashing
  utility does not matter when \<open>AUTH_PASSWORD\<close> is unset or empty.
\<close>

theorem run_is_deterministic:
  assumes "distinct (map fst items)" and "distinct (map fst items')"
    and "set items = set items'"
  shows "main rt items custom persisted h = main rt items' custom persisted h
     \<and> apply_convention_overrides rt items c = apply_overrides rt c (sort items)
     \<and> sorted (map fst (sort items))
     \<and> (\<not> env_truthy (map_of items) ''AUTH_PASSWORD''
          \<longrightarrow> main rt items custom persisted h = main rt items' custom persisted h')"
proof -
  have env: "map_of items = map_of items'"
    using assms by (simp add: map_of_inject_set)
  have order: "sort items = sort items'"
    using assms by (rule sort_items_unique)
  have same: "build_config rt items custom persisted = build_config rt items' custom persisted"
    by (simp add: build_config_def apply_convention_overrides_def env order)
  have run: "main rt items custom persisted h = main rt items' custom persisted h"
    unfolding main_def resolve_def same env by (rule refl)
  have "main rt items' custom persisted h = main rt items' custom persisted h'"
    if "\<not> env_truthy (map_of items) ''AUTH_PASSWORD''"
  proof -
    from that have eq: "auth_content (map_of items') h = auth_content (map_of items') h'"
      unfolding env by (rule auth_content_no_password)
    show ?thesis
      unfolding main_def eq by (rule refl)
  qed
  with run show ?thesis
    by (simp add: apply_convention_overrides_def sorted_names)
qed

theorem run_is_deterministic_witness:
  "distinct (map fst [(''OLLAMA_BASE_URL'', ''http://h''), (''OPENCLAW_JSON__a'', ''1'')])
   \<and> set [(''OLLAMA_BASE_URL'', ''http://h''), (''OPENCLAW_JSON__a'', ''1'')]
       = set [(''OPENCLAW_JSON__a'', ''1''), (''OLLAMA_BASE_URL'', ''http://h'')]
   \<and> main example_runtime [(''OLLAMA_BASE_URL'', ''http://h''), (''OPENCLAW_JSON__a'', ''1'')]
         None None (0, ''x'')
       = main example_runtime [(''OPENCLAW_JSON__a'', ''1''), (''OLLAMA_BASE_URL'', ''http://h'')]
         None None (1, ''y'')"
proof -
  have d: "distinct (map fst [(''OLLAMA_BASE_URL'', ''http://h''), (''OPENCLAW_JSON__a'', ''1'')])"
    "distinct (map fst [(''OPENCLAW_JSON__a'', ''1''), (''OLLAMA_BASE_URL'', ''http://h'')])"
    by simp_all
  have s: "set [(''OLLAMA_BASE_URL'', ''http://h''), (''OPENCLAW_JSON__a'', ''1'')]
       = set [(''OPENCLAW_JSON__a'', ''1''), (''OLLAMA_BASE_URL'', ''http://h'')]"
    by auto
  have p: "\<not> env_truthy (map_of [(''OLLAMA_BASE_URL'', ''http://h''), (''OPENCLAW_JSON__a'', ''1'')])
             ''AUTH_PASSWORD''"
    by (simp add: env_truthy_def)
  from run_is_deterministic[OF d s, of example_runtime None None "(0, ''x'')" _ "(1, ''y'')"] p
  have "main example_runtime [(''OLLAMA_BASE_URL'', ''http://h''), (''OPENCLAW_JSON__a'', ''1'')]
         None None (0, ''x'')
       = main example_runtime [(''OPENCLAW_JSON__a'', ''1''), (''OLLAMA_BASE_URL'', ''http://h'')]
         None None (1, ''y'')"
    by blast
  with d(1) s show ?thesis by blast
qed

text \<open>
  Claim C9 as stated leaves out the hashing utility. With \<open>AUTH_PASSWORD\<close> set, the
  authentication snippet holds what \<open>caddy hash-password\<close> printed, a salted hash: on
  the same environment and documents, two answers of the utility give two different
  files.
\<close>

theorem run_is_deterministic_counterexample:
  "auth_caddyfile (main example_runtime
       [(''AUTH_PASSWORD'', ''pw''), (''OLLAMA_BASE_URL'', ''http://h'')] None None
       (0, ''$2a$14$AAAA''))
   \<noteq> auth_caddyfile (main example_runtime
       [(''AUTH_PASSWORD'', ''pw''), (''OLLAMA_BASE_URL'', ''http://h'')] None None
       (0, ''$2a$14$BBBB''))"
  by (simp add: engine_defs table_defs example_defs NL_def cong: and_then_weak_cong)

end
